theory Spec2Isabelle
  imports Complex_Main "HOL-Library.Sublist"
begin

section \<open>JavaScript strings\<close>

text \<open>
  A JavaScript string is modelled as a \<^typ>\<open>string\<close>, one \<^typ>\<open>char\<close> per code unit.
  The character classes below are the ASCII ones: \<open>\d\<close> is \<open>[0-9]\<close> in JavaScript, and
  on ASCII text \<open>\s\<close> and the characters removed by \<open>trim()\<close> are tab, line feed,
  vertical tab, form feed, carriage return and space. \<open>toLowerCase()\<close> is modelled on the
  letters \<open>A\<close> to \<open>Z\<close>; every other character is left as it is, so the model is exact for
  ASCII text.
\<close>

definition isDigit :: "char \<Rightarrow> bool" where
  "isDigit c \<longleftrightarrow> c \<in> set ''0123456789''"

definition isSpace :: "char \<Rightarrow> bool" where
  "isSpace c \<longleftrightarrow> c \<in> set [CHR 0x09, CHR 0x0A, CHR 0x0B, CHR 0x0C, CHR 0x0D, CHR '' '']"

definition isLetter :: "char \<Rightarrow> bool" where
  "isLetter c \<longleftrightarrow> c \<in> set ''abcdefghijklmnopqrstuvwxyzABCDEFGHIJKLMNOPQRSTUVWXYZ''"

definition lowerChar :: "char \<Rightarrow> char" where
  "lowerChar c =
     (case map_of (zip ''ABCDEFGHIJKLMNOPQRSTUVWXYZ'' ''abcdefghijklmnopqrstuvwxyz'') c of
        Some l \<Rightarrow> l
      | None \<Rightarrow> c)"

definition toLowerCase :: "string \<Rightarrow> string" where
  "toLowerCase s = map lowerChar s"

text \<open>\<open>s.includes(sub)\<close>: \<open>sub\<close> occurs in \<open>s\<close> as a contiguous run.\<close>

definition js_includes :: "string \<Rightarrow> string \<Rightarrow> bool" where
  "js_includes s sub \<longleftrightarrow> sublist sub s"

text \<open>\<open>s.trim()\<close>.\<close>

definition trim :: "string \<Rightarrow> string" where
  "trim s = rev (dropWhile isSpace (rev (dropWhile isSpace s)))"

text \<open>
  \<open>s.split(/\s+/)\<close>: the pieces between the maximal runs of white space; a leading or a
  trailing run gives an empty first or last piece, and the empty string gives one empty
  piece.
\<close>

function splitSpaces :: "string \<Rightarrow> string list" where
  "splitSpaces s =
     (let w = takeWhile (\<lambda>c. \<not> isSpace c) s; r = dropWhile (\<lambda>c. \<not> isSpace c) s
      in if r = [] then [w] else w # splitSpaces (dropWhile isSpace r))"
  by pat_completeness auto
termination
proof (relation "measure length")
  fix s w r
  assume r: "r = dropWhile (\<lambda>c. \<not> isSpace c) s" and ne: "r \<noteq> []"
  from ne obtain x xs where rx: "r = x # xs" by (cases r) auto
  with r have "isSpace x" by (metis dropWhile_eq_Cons_conv)
  then have "length (dropWhile isSpace r) \<le> length xs"
    using rx by (simp add: length_dropWhile_le)
  moreover have "length r \<le> length s"
    using r by (simp add: length_dropWhile_le)
  ultimately show "(dropWhile isSpace r, s) \<in> measure length"
    using rx by simp
qed simp

declare splitSpaces.simps [simp del]

text \<open>\<open>pieces.join(sep)\<close>.\<close>

fun join :: "string \<Rightarrow> string list \<Rightarrow> string" where
  "join sep [] = []"
| "join sep [w] = w"
| "join sep (w # v # ws) = w @ sep @ join sep (v # ws)"

text \<open>
  \<open>parseInt(ds, 10)\<close> and \<open>parseFloat(ds)\<close> on a non-empty run of decimal digits: the
  number the digits write, leading zeros allowed.
\<close>

definition digitVal :: "char \<Rightarrow> nat" where
  "digitVal c = (case map_of (zip ''0123456789'' [0, 1, 2, 3, 4, 5, 6, 7, 8, 9]) c of
                   Some d \<Rightarrow> d
                 | None \<Rightarrow> 0)"

definition parseDigits :: "string \<Rightarrow> nat" where
  "parseDigits ds = foldl (\<lambda>n c. 10 * n + digitVal c) 0 ds"

section \<open>compositionParser.js\<close>

subsection \<open>The regular expressions\<close>

text \<open>
  \<open>/(\d{1,3})%\s*([a-zA-Z\s]+)/\<close> tried at the start of \<open>s\<close>. The greedy \<open>\d{1,3}\<close>
  takes the digits among the first three characters; giving a digit back never helps, for
  the character after the shorter run is then a digit and not \<open>%\<close>. The greedy \<open>\s*\<close>
  takes the whole run of white space. When a letter follows, the second group is the
  longest run of letters and white space from there. When none follows, \<open>\s*\<close> gives its
  last character back and the second group is that one white-space character. The result
  is the two groups and the text after the match.
\<close>

definition fiberChar :: "char \<Rightarrow> bool" where
  "fiberChar c \<longleftrightarrow> isLetter c \<or> isSpace c"

definition fiberMatchAt :: "string \<Rightarrow> (string \<times> string \<times> string) option" where
  "fiberMatchAt s =
     (let ds = takeWhile isDigit (take 3 s); r = drop (length ds) s
      in if ds = [] then None
         else (case r of
                 [] \<Rightarrow> None
               | p # r1 \<Rightarrow>
                   if p \<noteq> CHR ''%'' then None
                   else (let ws = takeWhile isSpace r1; r2 = dropWhile isSpace r1
                         in if r2 \<noteq> [] \<and> isLetter (hd r2)
                            then Some (ds, takeWhile fiberChar r2, dropWhile fiberChar r2)
                            else if ws = [] then None
                            else Some (ds, [last ws], r2))))"

text \<open>
  \<open>Array.from(textLower.matchAll(pattern))\<close>: the matches from left to right, each search
  starting where the previous match ended; every match is at least two characters long.
  Each match is given by its two groups.
\<close>

function matchAll :: "string \<Rightarrow> (string \<times> string) list" where
  "matchAll [] = []"
| "matchAll (c # cs) =
     (case fiberMatchAt (c # cs) of
        None \<Rightarrow> matchAll cs
      | Some (ds, g, rest) \<Rightarrow> (ds, g) # matchAll rest)"
  by pat_completeness auto
termination
proof (relation "measure length")
  fix c cs x2 ds y g rest
  assume m: "fiberMatchAt (c # cs) = Some x2" and x2: "(ds, y) = x2" and y: "(g, rest) = y"
  let ?s = "c # cs"
  let ?ds = "takeWhile isDigit (take 3 ?s)"
  from m x2 y have ne: "?ds \<noteq> []"
    by (auto simp: fiberMatchAt_def Let_def split: if_splits)
  from m x2 y obtain r1 where r: "drop (length ?ds) ?s = CHR ''%'' # r1"
    by (auto simp: fiberMatchAt_def Let_def split: if_splits list.splits)
  from m x2 y r
  have "rest = dropWhile fiberChar (dropWhile isSpace r1) \<or> rest = dropWhile isSpace r1"
    by (auto simp: fiberMatchAt_def Let_def split: if_splits)
  then have "length rest \<le> length r1"
    by (metis length_dropWhile_le order_trans)
  moreover have "length (drop (length ?ds) ?s) = Suc (length r1)"
    using r by simp
  ultimately have "length rest < length ?s" by simp
  then show "(rest, c # cs) \<in> measure length" by simp
qed simp_all

text \<open>
  \<open>/(\d{1,3})%\s*cotton/i\<close> tried at the start of \<open>s\<close>: the digits, as above, then
  \<open>%\<close>, the whole run of white space, and the word. The text is already in lower case
  when the expression is applied, and the word is compared as such.
\<close>

definition cottonMatchAt :: "string \<Rightarrow> string option" where
  "cottonMatchAt s =
     (let ds = takeWhile isDigit (take 3 s); r = drop (length ds) s
      in if ds = [] then None
         else (case r of
                 [] \<Rightarrow> None
               | p # r1 \<Rightarrow>
                   if p = CHR ''%'' \<and> prefix ''cotton'' (dropWhile isSpace r1)
                   then Some ds else None))"

text \<open>\<open>textLower.match(...)\<close> without the \<open>g\<close> flag: the leftmost match, or \<open>null\<close>.\<close>

fun matchCotton :: "string \<Rightarrow> string option" where
  "matchCotton [] = None"
| "matchCotton (c # cs) =
     (case cottonMatchAt (c # cs) of
        Some ds \<Rightarrow> Some ds
      | None \<Rightarrow> matchCotton cs)"

subsection \<open>parseComposition and getCottonPercentage\<close>

text \<open>
  The argument is \<open>None\<close> when it is absent or not a string. The empty string is falsy and
  takes the early return as well. The composition object is a map from fiber names to
  percentages; the keys are made of lower-case letters and single spaces.
\<close>

record parsed =
  composition :: "string \<rightharpoonup> nat"
  isCotton90 :: bool

text \<open>
  One round of the loop over the matches, on the pair of \<open>composition\<close> and
  \<open>cottonPercents\<close>. Nothing in the body raises, so the \<open>catch\<close> is never entered.
\<close>

definition parseStep :: "(string \<rightharpoonup> nat) \<times> nat list \<Rightarrow> string \<times> string \<Rightarrow> (string \<rightharpoonup> nat) \<times> nat list" where
  "parseStep acc m =
     (let percent = parseDigits (fst m);
          fiber = toLowerCase (trim (snd m));
          fiberClean = join '' '' (splitSpaces fiber)
      in ((fst acc)(fiberClean \<mapsto> percent),
          if js_includes fiber ''cotton'' then snd acc @ [percent] else snd acc))"

definition parseComposition :: "string option \<Rightarrow> parsed" where
  "parseComposition text =
     (case text of
        None \<Rightarrow> \<lparr>composition = Map.empty, isCotton90 = False\<rparr>
      | Some t \<Rightarrow>
          if t = [] then \<lparr>composition = Map.empty, isCotton90 = False\<rparr>
          else (let textLower = toLowerCase t;
                    matches = matchAll textLower;
                    acc = foldl parseStep (Map.empty, []) matches
                in \<lparr>composition = fst acc, isCotton90 = list_ex (\<lambda>p. 90 \<le> p) (snd acc)\<rparr>))"

definition getCottonPercentage :: "string option \<Rightarrow> nat" where
  "getCottonPercentage text =
     (case text of
        None \<Rightarrow> 0
      | Some t \<Rightarrow>
          if t = [] then 0
          else (case matchCotton (toLowerCase t) of
                  Some ds \<Rightarrow> parseDigits ds
                | None \<Rightarrow> 0))"

subsection \<open>Occurrences of the cotton pattern\<close>





section \<open>server.js: the category normaliser\<close>

text \<open>
  \<open>getCategoryVariations\<close> looks the category up in a table of four entries and falls
  back to the singleton list. Names that an object inherits from its prototype
  (\<open>constructor\<close> and the like) are not categories and are outside the model.
\<close>

definition variations :: "(string \<times> string list) list" where
  "variations =
     [(''tops'', [''tops'', ''top'', ''tshirts'', ''tshirt'', ''t-shirt'', ''t-shirts'',
                  ''shirt'', ''shirts'', ''blouse'', ''blouses'']),
      (''pants'', [''pants'', ''pant'', ''jeans'', ''jean'', ''trousers'', ''trouser'']),
      (''skirts'', [''skirts'', ''skirt'']),
      (''dresses'', [''dresses'', ''dress''])]"

definition getCategoryVariations :: "string \<Rightarrow> string list" where
  "getCategoryVariations normalizedCategory =
     (case map_of variations normalizedCategory of
        Some vs \<Rightarrow> vs
      | None \<Rightarrow> [normalizedCategory])"

text \<open>The four conditions of \<open>normalizeCategory\<close>, on the lower-cased name.\<close>

definition topsSignal :: "string \<Rightarrow> bool" where
  "topsSignal lower \<longleftrightarrow>
     js_includes lower ''t-shirt'' \<or> js_includes lower ''tshirt'' \<or> js_includes lower ''tee''
     \<or> js_includes lower ''blouse'' \<or> lower = ''shirt'' \<or> lower = ''shirts''
     \<or> lower = ''top'' \<or> lower = ''tops''"

definition pantsSignal :: "string \<Rightarrow> bool" where
  "pantsSignal lower \<longleftrightarrow>
     js_includes lower ''pant'' \<or> js_includes lower ''jean'' \<or> js_includes lower ''trouser''"

definition skirtsSignal :: "string \<Rightarrow> bool" where
  "skirtsSignal lower \<longleftrightarrow> js_includes lower ''skirt''"

definition dressesSignal :: "string \<Rightarrow> bool" where
  "dressesSignal lower \<longleftrightarrow> js_includes lower ''dress''"

text \<open>
  The argument is \<open>None\<close> for \<open>null\<close> and \<open>undefined\<close>; the empty string is falsy and
  gives \<open>null\<close> as well.
\<close>

definition normalizeCategory :: "string option \<Rightarrow> string option" where
  "normalizeCategory categoryName =
     (case categoryName of
        None \<Rightarrow> None
      | Some n \<Rightarrow>
          if n = [] then None
          else (let lower = toLowerCase n
                in if topsSignal lower then Some ''tops''
                   else if pantsSignal lower then Some ''pants''
                   else if skirtsSignal lower then Some ''skirts''
                   else if dressesSignal lower then Some ''dresses''
                   else Some lower))"

section \<open>Products\<close>

text \<open>
  A product is a JavaScript object; a field that may be missing is an option. The scraper
  sets every field but \<open>color\<close> and \<open>isCurated\<close>, which the callers add; the mock products
  of \<open>scraper.js\<close> have no \<open>is_cotton_90\<close>, \<open>currency\<close>, \<open>images\<close>, \<open>sizes_available\<close> or
  \<open>composition_parsed\<close>. A price is a number that is stored and never computed with.
\<close>

record product =
  p_id :: "string option"
  p_name :: "string option"
  p_site :: "string option"
  p_brand :: "string option"
  p_price :: "real option"
  p_currency :: "string option"
  p_cottonPercentage :: "nat option"
  p_materials :: "string option"
  p_composition_parsed :: "(string \<rightharpoonup> nat) option"
  p_is_cotton_90 :: "bool option"
  p_images :: "string list option"
  p_image :: "string option"
  p_sizes_available :: "string list option"
  p_category :: "string option"
  p_gender :: "string option"
  p_url :: string
  p_color :: "string option"
  p_isCurated :: "bool option"

text \<open>\<open>x || ''\<close> on an optional string, and \<open>${x}\<close> in a template literal.\<close>

definition orEmpty :: "string option \<Rightarrow> string" where
  "orEmpty x = (case x of None \<Rightarrow> [] | Some s \<Rightarrow> s)"

definition template :: "string option \<Rightarrow> string" where
  "template x = (case x of None \<Rightarrow> ''undefined'' | Some s \<Rightarrow> s)"

section \<open>zaraScraper.js\<close>

definition determineCategory :: "string option \<Rightarrow> string option \<Rightarrow> string option \<Rightarrow> string" where
  "determineCategory url name desc =
     (let urlLower = toLowerCase (orEmpty url);
          nameLower = toLowerCase (orEmpty name);
          descLower = toLowerCase (orEmpty desc);
          combined = urlLower @ '' '' @ nameLower @ '' '' @ descLower
      in if js_includes combined ''dress'' then ''dresses''
         else if js_includes combined ''shirt'' \<or> js_includes combined ''shirt'' then ''shirts''
         else if js_includes combined ''trouser'' \<or> js_includes combined ''pant''
                 \<or> js_includes combined ''jean'' then ''pants''
         else if js_includes combined ''tshirt'' \<or> js_includes combined ''t-shirt''
                 \<or> js_includes combined ''tee'' then ''tshirts''
         else if js_includes combined ''top'' \<and> \<not> js_includes combined ''tshirt'' then ''tops''
         else if js_includes combined ''skirt'' then ''skirts''
         else if js_includes combined ''jacket'' then ''jackets''
         else if js_includes urlLower ''/dresses'' then ''dresses''
         else if js_includes urlLower ''/shirts'' then ''shirts''
         else if js_includes urlLower ''/trousers'' \<or> js_includes urlLower ''/pants'' then ''pants''
         else if js_includes urlLower ''/t-shirts'' \<or> js_includes urlLower ''/tshirts''
              then ''tshirts''
         else if js_includes urlLower ''/tops'' then ''tops''
         else if js_includes urlLower ''/skirts'' then ''skirts''
         else if js_includes urlLower ''/jackets'' then ''jackets''
         else ''unknown'')"

definition determineGender :: "string option \<Rightarrow> string" where
  "determineGender url =
     (let urlLower = toLowerCase (orEmpty url)
      in if js_includes urlLower ''/man'' \<or> js_includes urlLower ''/men'' then ''male''
         else if js_includes urlLower ''/woman'' \<or> js_includes urlLower ''/women'' then ''female''
         else ''unknown'')"

text \<open>
  \<open>url.match(/p(\d+)/)?.[1]\<close>: the digits after the leftmost \<open>p\<close> that a digit follows.
\<close>

fun matchProductId :: "string \<Rightarrow> string option" where
  "matchProductId [] = None"
| "matchProductId (c # cs) =
     (if c = CHR ''p'' \<and> takeWhile isDigit cs \<noteq> [] then Some (takeWhile isDigit cs)
      else matchProductId cs)"

text \<open>What \<open>page.evaluate\<close> returns for a product page.\<close>

record productData =
  rd_name :: string
  rd_price :: real
  rd_materials :: string
  rd_images :: "string list"
  rd_sizes :: "string list"

text \<open>
  The part of \<open>extractProductInfo\<close> after \<open>page.evaluate\<close>: the product built from the
  page data, or \<open>null\<close> when the page gave no name. \<open>rnd\<close> is the token from
  \<open>Math.random()\<close>, used when the URL carries no product number.
\<close>

definition buildProduct :: "string \<Rightarrow> string \<Rightarrow> productData \<Rightarrow> product option" where
  "buildProduct url rnd productData =
     (let category = determineCategory (Some url) (Some (rd_name productData))
                       (Some (rd_materials productData));
          gender = determineGender (Some url);
          compositionText = rd_materials productData;
          cottonPercentage = getCottonPercentage (Some compositionText);
          parsedComposition = parseComposition (Some compositionText)
      in if rd_name productData = [] \<or> rd_name productData = ''Unknown Product'' then None
         else Some \<lparr>
           p_id = Some (case matchProductId url of Some n \<Rightarrow> n | None \<Rightarrow> rnd),
           p_name = Some (rd_name productData),
           p_site = Some ''zara'',
           p_brand = Some ''Zara'',
           p_price = Some (rd_price productData),
           p_currency = Some ''CAD'',
           p_cottonPercentage = Some cottonPercentage,
           p_materials = Some (if compositionText = []
                               then ''Material information not available''
                               else compositionText),
           p_composition_parsed = Some (composition parsedComposition),
           p_is_cotton_90 = Some (isCotton90 parsedComposition),
           p_images = Some (rd_images productData),
           p_image = Some (case rd_images productData of [] \<Rightarrow> [] | i # _ \<Rightarrow> i),
           p_sizes_available = Some (rd_sizes productData),
           p_category = Some category,
           p_gender = Some gender,
           p_url = url,
           p_color = None,
           p_isCurated = None \<rparr>)"

subsection \<open>extractProductInfo\<close>

text \<open>
  What the browser does during one call of \<open>extractProductInfo\<close>: whether a browser
  of its own can be launched and set up (asked for only when the caller passes no page),
  what navigation and \<open>page.evaluate\<close> give, whether \<open>browser.close()\<close> succeeds, and
  the random token.
\<close>

datatype pageResult = PageThrows | PageData productData

record fetch =
  f_launch_ok :: bool
  f_page :: pageResult
  f_close_ok :: bool
  f_random :: string

text \<open>The failure messages written to the console; the progress messages are left out.\<close>

datatype logEntry =
    ExtractError string
  | SkippedNoName string
  | ScrapeError string
  | CouldNotExtract
  | ScrapingFailed
  | SearchError

datatype 'a outcome = Threw | Returned 'a

text \<open>
  The body of \<open>extractProductInfo\<close> is one \<open>try\<close> whose \<open>catch\<close> logs and returns
  \<open>null\<close>. The \<open>finally\<close> closes the browser when the call launched one and set it
  up; a failure there is the only way for the call to throw.
\<close>

definition extractProductInfo :: "string \<Rightarrow> bool \<Rightarrow> fetch \<Rightarrow> logEntry list \<times> product option outcome" where
  "extractProductInfo url pageGiven f =
     (let shouldCloseBrowser = \<not> pageGiven \<and> f_launch_ok f;
          body = (if \<not> pageGiven \<and> \<not> f_launch_ok f then ([ExtractError url], None)
                  else (case f_page f of
                          PageThrows \<Rightarrow> ([ExtractError url], None)
                        | PageData productData \<Rightarrow>
                            (case buildProduct url (f_random f) productData of
                               None \<Rightarrow> ([SkippedNoName url], None)
                             | Some product \<Rightarrow> ([], Some product))))
      in if shouldCloseBrowser \<and> \<not> f_close_ok f then (fst body, Threw)
         else (fst body, Returned (snd body)))"

section \<open>scraper.js\<close>

subsection \<open>extractColor\<close>

definition upperChar :: "char \<Rightarrow> char" where
  "upperChar c =
     (case map_of (zip ''abcdefghijklmnopqrstuvwxyz'' ''ABCDEFGHIJKLMNOPQRSTUVWXYZ'') c of
        Some u \<Rightarrow> u
      | None \<Rightarrow> c)"

text \<open>\<open>w.charAt(0).toUpperCase() + w.slice(1)\<close>.\<close>

definition capitalize :: "string \<Rightarrow> string" where
  "capitalize w = (case w of [] \<Rightarrow> [] | c # cs \<Rightarrow> upperChar c # cs)"

definition colors :: "string list" where
  "colors = [''black'', ''white'', ''blue'', ''red'', ''green'', ''navy'', ''grey'', ''gray'',
             ''beige'', ''brown'', ''pink'', ''yellow'']"

definition extractColor :: "string option \<Rightarrow> string option \<Rightarrow> string" where
  "extractColor name description =
     (let text = toLowerCase (template name @ '' '' @ template description)
      in (case find (\<lambda>color. js_includes text color) colors of
            Some color \<Rightarrow> capitalize color
          | None \<Rightarrow> ''Various''))"

subsection \<open>getMockProducts\<close>

text \<open>\<open>s.split(' ')\<close>: the pieces between the single spaces.\<close>

fun splitOn :: "char \<Rightarrow> string \<Rightarrow> string list" where
  "splitOn sep [] = [[]]"
| "splitOn sep (c # cs) =
     (if c = sep then [] # splitOn sep cs
      else (case splitOn sep cs of
              [] \<Rightarrow> [[c]]
            | w # ws \<Rightarrow> (c # w) # ws))"

definition mockProduct :: "string \<Rightarrow> string \<Rightarrow> real \<Rightarrow> nat \<Rightarrow> string \<Rightarrow> string \<Rightarrow> string \<Rightarrow> string \<Rightarrow> string \<Rightarrow> string \<Rightarrow> product" where
  "mockProduct i name price cotton materials color img url category gender =
     \<lparr> p_id = Some i, p_name = Some name, p_site = Some ''zara'', p_brand = Some ''Zara'',
       p_price = Some price, p_currency = None, p_cottonPercentage = Some cotton,
       p_materials = Some materials, p_composition_parsed = None, p_is_cotton_90 = None,
       p_images = None, p_image = Some img, p_sizes_available = None,
       p_category = Some category, p_gender = Some gender, p_url = url,
       p_color = Some color, p_isCurated = None \<rparr>"

definition allMockProducts :: "product list" where
  "allMockProducts =
     [mockProduct ''1'' ''Essential Cotton T-Shirt'' (2599 / 100) 100 ''100% Cotton'' ''Black''
        ''https://images.unsplash.com/photo-1521572163474-6864f9cf17ab?w=400''
        ''https://www.zara.com/ca/en/product/essential-tshirt'' ''tshirts'' ''male'',
      mockProduct ''2'' ''Premium Cotton Shirt'' (3999 / 100) 95 ''95% Cotton, 5% Elastane'' ''White''
        ''https://images.unsplash.com/photo-1596755094514-f87e34085b2c?w=400''
        ''https://www.zara.com/ca/en/product/premium-shirt'' ''shirts'' ''female'',
      mockProduct ''3'' ''Cotton Midi Dress'' (5999 / 100) 92 ''92% Cotton, 8% Polyester'' ''Blue''
        ''https://images.unsplash.com/photo-1595777457583-95e059d581b8?w=400''
        ''https://www.zara.com/ca/en/product/cotton-dress'' ''dresses'' ''female'']"

definition getMockProducts :: "string \<Rightarrow> product list" where
  "getMockProducts query =
     (let queryLower = toLowerCase query
      in filter (\<lambda>product.
           let searchText = toLowerCase (template (p_name product) @ '' '' @ template (p_color product)
                              @ '' '' @ template (p_category product) @ '' ''
                              @ template (p_gender product));
               queryWords = splitOn (CHR '' '') queryLower
           in list_ex (\<lambda>word. js_includes searchText word) queryWords) allMockProducts)"

subsection \<open>The result cache\<close>

text \<open>
  \<open>node-cache\<close> is a package the repository depends on. It is modelled by its contract:
  \<open>set\<close> stores the value with the time at which it expires, the standard time to live
  (3600 seconds, given at construction) after the time of the call; \<open>get\<close> returns the
  value of a key that is present and has not expired, and \<open>undefined\<close> otherwise. Times
  are in milliseconds.
\<close>

type_synonym cache = "string \<rightharpoonup> (nat \<times> product list)"

definition stdTTL :: nat where
  "stdTTL = 3600"

definition cache_get :: "nat \<Rightarrow> cache \<Rightarrow> string \<Rightarrow> product list option" where
  "cache_get now c key =
     (case c key of
        None \<Rightarrow> None
      | Some (expires, v) \<Rightarrow> if expires < now then None else Some v)"

definition cache_set :: "nat \<Rightarrow> cache \<Rightarrow> string \<Rightarrow> product list \<Rightarrow> cache" where
  "cache_set now c key v = c(key \<mapsto> (now + stdTTL * 1000, v))"

subsection \<open>searchZara\<close>

text \<open>\<open>${limit}\<close> for a natural number: its decimal digits.\<close>

fun showNat :: "nat \<Rightarrow> string" where
  "showNat n =
     (if n < 10 then [''0123456789'' ! n]
      else showNat (n div 10) @ [''0123456789'' ! (n mod 10)])"

declare showNat.simps [simp del]

record searchResult =
  sr_value :: "product list outcome"
  sr_cache :: cache
  sr_scraped :: bool
  sr_log :: "logEntry list"

text \<open>
  \<open>now\<close> is the time at which the cache is read and \<open>later\<close> the time at which the
  result is stored. \<open>scrape\<close> is what \<open>scraper.searchProducts(query, limit)\<close> does when
  it is called; \<open>sr_scraped\<close> tells whether it was. A cached value is an array and so
  truthy.
\<close>

definition cacheKey :: "string \<Rightarrow> nat \<Rightarrow> string" where
  "cacheKey query limit = ''zara_search_'' @ toLowerCase query @ ''_'' @ showNat limit"

definition searchZara :: "nat \<Rightarrow> nat \<Rightarrow> cache \<Rightarrow> string \<Rightarrow> nat \<Rightarrow> product list outcome \<Rightarrow> searchResult" where
  "searchZara now later c query limit scrape =
     (case cache_get now c (cacheKey query limit) of
        Some cached \<Rightarrow>
          \<lparr>sr_value = Returned cached, sr_cache = c, sr_scraped = False, sr_log = []\<rparr>
      | None \<Rightarrow>
          (case scrape of
             Returned products \<Rightarrow>
               (let productsWithColor =
                      map (\<lambda>product. product\<lparr>p_color :=
                             Some (extractColor (p_name product) (p_materials product))\<rparr>)
                        products
                in \<lparr>sr_value = Returned productsWithColor,
                    sr_cache = (if length productsWithColor > 0
                                then cache_set later c (cacheKey query limit) productsWithColor
                                else c),
                    sr_scraped = True, sr_log = []\<rparr>)
           | Threw \<Rightarrow>
               \<lparr>sr_value = Returned (getMockProducts query), sr_cache = c,
                sr_scraped = True, sr_log = [SearchError]\<rparr>))"

subsection \<open>scrapeZaraCategory\<close>

text \<open>\<open>product.name && product.name !== 'Unknown Product'\<close>.\<close>

definition hasName :: "product \<Rightarrow> bool" where
  "hasName product \<longleftrightarrow>
     (case p_name product of
        None \<Rightarrow> False
      | Some n \<Rightarrow> n \<noteq> [] \<and> n \<noteq> ''Unknown Product'')"

text \<open>
  The loop over the product URLs, each URL paired with what the browser does for it.
  The state is \<open>products\<close>, \<open>productsFound\<close> and the console. The \<open>catch\<close> of the loop
  logs the URL and goes on with the next one.
\<close>

fun scrapeLoop :: "nat \<Rightarrow> (string \<times> fetch) list \<Rightarrow> product list \<times> nat \<times> logEntry list
                     \<Rightarrow> product list \<times> nat \<times> logEntry list" where
  "scrapeLoop count [] st = st"
| "scrapeLoop count ((url, f) # rest) (products, productsFound, lg) =
     (if productsFound \<ge> count then (products, productsFound, lg)
      else (case extractProductInfo url False f of
              (l, Threw) \<Rightarrow>
                scrapeLoop count rest (products, productsFound, lg @ l @ [ScrapeError url])
            | (l, Returned None) \<Rightarrow>
                scrapeLoop count rest (products, productsFound, lg @ l)
            | (l, Returned (Some product)) \<Rightarrow>
                (let product' = product\<lparr>p_color :=
                       Some (extractColor (p_name product) (p_materials product))\<rparr>
                 in if hasName product'
                    then scrapeLoop count rest (products @ [product'], productsFound + 1, lg @ l)
                    else scrapeLoop count rest (products, productsFound, lg @ l))))"

text \<open>
  \<open>productUrls\<close> is what \<open>scraper.getProductUrls(category, gender, count * 2)\<close> does. The
  function returns the products; the console is returned with them.
\<close>

definition scrapeZaraCategory :: "nat \<Rightarrow> (string \<times> fetch) list outcome \<Rightarrow> product list \<times> logEntry list" where
  "scrapeZaraCategory count productUrls =
     (case productUrls of
        Threw \<Rightarrow> ([], [ScrapingFailed])
      | Returned urls \<Rightarrow>
          if length urls = 0 then ([], [])
          else (case scrapeLoop count urls ([], 0, []) of
                  (products, productsFound, lg) \<Rightarrow> (products, lg)))"

section \<open>scrape-curated-urls.js\<close>

definition curatedColors :: "string list" where
  "curatedColors = [''black'', ''white'', ''blue'', ''red'', ''green'', ''navy'', ''grey'', ''gray'',
                    ''beige'', ''brown'', ''pink'', ''yellow'', ''striped'', ''floral'', ''plaid'',
                    ''animal print'']"

definition extractColor_curated :: "string option \<Rightarrow> string option \<Rightarrow> string" where
  "extractColor_curated name description =
     (let text = toLowerCase (template name @ '' '' @ template description)
      in (case find (\<lambda>color. js_includes text color) curatedColors of
            Some color \<Rightarrow> join '' '' (map capitalize (splitOn (CHR '' '') color))
          | None \<Rightarrow> ''Various''))"

text \<open>\<open>urls[i].split('?')[0].split('#')[0]\<close>.\<close>

definition cleanUrl :: "string \<Rightarrow> string" where
  "cleanUrl u = takeWhile (\<lambda>c. c \<noteq> CHR ''#'') (takeWhile (\<lambda>c. c \<noteq> CHR ''?'') u)"

text \<open>The category given to a curated product, from its lower-cased name and its list.\<close>

definition normalizedCategory :: "string \<Rightarrow> string \<Rightarrow> string" where
  "normalizedCategory nameLower category =
     (if js_includes nameLower ''t-shirt'' \<or> js_includes nameLower ''tshirt''
         \<or> js_includes nameLower ''tee'' \<or> js_includes nameLower ''blouse''
         \<or> js_includes nameLower ''shirt'' \<or> category = ''tops'' then ''tops''
      else if js_includes nameLower ''pant'' \<or> js_includes nameLower ''jean''
              \<or> js_includes nameLower ''trouser'' \<or> category = ''pants'' then ''pants''
      else if js_includes nameLower ''skirt'' \<or> category = ''skirts'' then ''skirts''
      else if js_includes nameLower ''dress'' \<or> category = ''dresses'' then ''dresses''
      else category)"

definition curate :: "string \<Rightarrow> product \<Rightarrow> product" where
  "curate category product =
     product\<lparr>p_color := Some (extractColor_curated (p_name product) (p_materials product)),
             p_category := Some (normalizedCategory (toLowerCase (orEmpty (p_name product))) category),
             p_isCurated := Some True\<rparr>"

text \<open>
  The inner loop, over the URLs of one category, on \<open>allProducts\<close> and the console. The
  page of the shared browser is passed to \<open>extractProductInfo\<close>. The \<open>catch\<close> of this loop
  reads a variable \<open>url\<close> that is not declared, so entering it raises a
  \<open>ReferenceError\<close> that leaves both loops.
\<close>

fun curatedUrlLoop :: "string \<Rightarrow> (string \<times> fetch) list \<Rightarrow> product list \<times> logEntry list
                         \<Rightarrow> (product list \<times> logEntry list) \<times> unit outcome" where
  "curatedUrlLoop category [] st = (st, Returned ())"
| "curatedUrlLoop category ((u, f) # rest) (allProducts, lg) =
     (case extractProductInfo (cleanUrl u) True f of
        (l, Threw) \<Rightarrow> ((allProducts, lg @ l), Threw)
      | (l, Returned None) \<Rightarrow>
          curatedUrlLoop category rest (allProducts, lg @ l @ [CouldNotExtract])
      | (l, Returned (Some product)) \<Rightarrow>
          if hasName product
          then curatedUrlLoop category rest (allProducts @ [curate category product], lg @ l)
          else curatedUrlLoop category rest (allProducts, lg @ l @ [CouldNotExtract]))"

fun curatedLoop :: "(string \<times> (string \<times> fetch) list) list \<Rightarrow> product list \<times> logEntry list
                      \<Rightarrow> (product list \<times> logEntry list) \<times> unit outcome" where
  "curatedLoop [] st = (st, Returned ())"
| "curatedLoop ((category, urls) # rest) st =
     (case curatedUrlLoop category urls st of
        (st', Threw) \<Rightarrow> (st', Threw)
      | (st', Returned _) \<Rightarrow> curatedLoop rest st')"

text \<open>
  \<open>scrapeCuratedUrls\<close> on a table of curated URLs, from the point where the browser is
  open; the outer \<open>catch\<close> logs the error, and \<open>allProducts\<close> is returned in either case.
\<close>

definition scrapeCuratedUrls :: "(string \<times> (string \<times> fetch) list) list \<Rightarrow> product list \<times> logEntry list" where
  "scrapeCuratedUrls curated =
     (case curatedLoop curated ([], []) of
        ((allProducts, lg), Threw) \<Rightarrow> (allProducts, lg @ [ScrapingFailed])
      | ((allProducts, lg), Returned _) \<Rightarrow> (allProducts, lg))"

section \<open>db/repositories.js\<close>

text \<open>
  A stored document. \<open>createdAt\<close> is absent from a document until an insert sets it.
  Dates are times in milliseconds.
\<close>

record document =
  d_site :: string
  d_url :: string
  d_name :: "string option"
  d_price :: "real option"
  d_currency :: string
  d_category :: "string option"
  d_gender :: "string option"
  d_composition_raw :: string
  d_composition_parsed :: "string \<rightharpoonup> nat"
  d_cottonPercentage :: nat
  d_is_cotton_90 :: bool
  d_images :: "string list"
  d_image :: string
  d_color :: string
  d_brand :: string
  d_sizes_available :: "string list"
  d_updatedAt :: nat
  d_createdAt :: "nat option"

text \<open>\<open>x || d\<close> and \<open>x || null\<close> on an optional string: the empty string is falsy.\<close>

definition orElse :: "string option \<Rightarrow> string \<Rightarrow> string" where
  "orElse x d = (case x of None \<Rightarrow> d | Some s \<Rightarrow> if s = [] then d else s)"

definition orNull :: "string option \<Rightarrow> string option" where
  "orNull x = (case x of None \<Rightarrow> None | Some s \<Rightarrow> if s = [] then None else Some s)"

text \<open>
  \<open>productToDict\<close>; \<open>now\<close> is the date read for \<open>updatedAt\<close>. A missing
  \<open>cottonPercentage\<close> compares as \<open>undefined >= 90\<close>, which is false.
\<close>

definition productToDict :: "product \<Rightarrow> nat \<Rightarrow> document" where
  "productToDict product now =
     \<lparr> d_site = orElse (p_site product) ''zara'',
       d_url = p_url product,
       d_name = p_name product,
       d_price = (case p_price product of
                    None \<Rightarrow> None
                  | Some x \<Rightarrow> if x = 0 then None else Some x),
       d_currency = orElse (p_currency product) ''CAD'',
       d_category = orNull (p_category product),
       d_gender = orNull (p_gender product),
       d_composition_raw = orElse (p_materials product) [],
       d_composition_parsed = (case p_composition_parsed product of
                                 None \<Rightarrow> Map.empty
                               | Some m \<Rightarrow> m),
       d_cottonPercentage = (case p_cottonPercentage product of None \<Rightarrow> 0 | Some n \<Rightarrow> n),
       d_is_cotton_90 = (case p_is_cotton_90 product of
                           Some b \<Rightarrow> b
                         | None \<Rightarrow> (case p_cottonPercentage product of
                                       None \<Rightarrow> False
                                     | Some n \<Rightarrow> n \<ge> 90)),
       d_images = (case p_images product of
                     Some is \<Rightarrow> is
                   | None \<Rightarrow> (case orNull (p_image product) of
                                 Some i \<Rightarrow> [i]
                               | None \<Rightarrow> [])),
       d_image = (case orNull (p_image product) of
                    Some i \<Rightarrow> i
                  | None \<Rightarrow> (case p_images product of
                                Some (i # _) \<Rightarrow> i
                              | _ \<Rightarrow> [])),
       d_color = orElse (p_color product) ''Various'',
       d_brand = orElse (p_brand product) ''Zara'',
       d_sizes_available = (case p_sizes_available product of None \<Rightarrow> [] | Some ss \<Rightarrow> ss),
       d_updatedAt = now,
       d_createdAt = None \<rparr>"

text \<open>
  The database: whether \<open>connect()\<close> has run, the documents of the collection in the
  order of their insertion, and the number of dates read so far. The clock gives the
  date of each reading.
\<close>

record world =
  connected :: bool
  docs :: "document list"
  reads :: nat

text \<open>
  \<open>collection.updateOne({url}, {$set, $setOnInsert: {createdAt}}, {upsert: true})\<close>: the
  first document with the URL takes the fields of \<open>$set\<close> and keeps its \<open>createdAt\<close>;
  when there is none, a document with the fields of \<open>$set\<close> and the \<open>createdAt\<close> of
  \<open>$setOnInsert\<close> is inserted.
\<close>

fun updateOne :: "string \<Rightarrow> document \<Rightarrow> nat \<Rightarrow> document list \<Rightarrow> document list" where
  "updateOne url setFields createdAt [] = [setFields\<lparr>d_createdAt := Some createdAt\<rparr>]"
| "updateOne url setFields createdAt (d # ds) =
     (if d_url d = url then setFields\<lparr>d_createdAt := d_createdAt d\<rparr> # ds
      else d # updateOne url setFields createdAt ds)"

text \<open>
  \<open>upsertProduct\<close> reads three dates: in \<open>productToDict\<close>, for the \<open>updatedAt\<close> of
  \<open>$set\<close>, and for the \<open>createdAt\<close> of \<open>$setOnInsert\<close>. \<open>getAritziaCollection()\<close>
  throws when the database is not connected.
\<close>

definition upsertProduct :: "(nat \<Rightarrow> nat) \<Rightarrow> product \<Rightarrow> world \<Rightarrow> world outcome" where
  "upsertProduct clock product w =
     (if \<not> connected w then Threw
      else (let doc = productToDict product (clock (reads w));
                setFields = doc\<lparr>d_updatedAt := clock (reads w + 1)\<rparr>;
                createdAt = clock (reads w + 2)
            in Returned (w\<lparr>docs := updateOne (p_url product) setFields createdAt (docs w),
                            reads := reads w + 3\<rparr>)))"

fun upsertAll :: "(nat \<Rightarrow> nat) \<Rightarrow> product list \<Rightarrow> world \<Rightarrow> world outcome" where
  "upsertAll clock [] w = Returned w"
| "upsertAll clock (product # products) w =
     (case upsertProduct clock product w of
        Threw \<Rightarrow> Threw
      | Returned w' \<Rightarrow> upsertAll clock products w')"

definition bulkUpsertProducts :: "(nat \<Rightarrow> nat) \<Rightarrow> product list \<Rightarrow> world \<Rightarrow> world outcome" where
  "bulkUpsertProducts clock products w =
     (if \<not> connected w then Threw else upsertAll clock products w)"

text \<open>The documents stored for a URL.\<close>

definition stored :: "string \<Rightarrow> world \<Rightarrow> document list" where
  "stored url w = filter (\<lambda>d. d_url d = url) (docs w)"

section \<open>What a URL contributes to a batch\<close>

text \<open>
  The product that one URL of a batch yields in \<open>scrapeZaraCategory\<close> and in
  \<open>scrapeCuratedUrls\<close>, or \<open>None\<close> when its fetch or its build fails; and what it means
  for the console to name a URL in a failure message.
\<close>

definition scraped :: "string \<times> fetch \<Rightarrow> product option" where
  "scraped uf =
     (case extractProductInfo (fst uf) False (snd uf) of
        (l, Returned (Some product)) \<Rightarrow>
          (let product' = product\<lparr>p_color :=
                 Some (extractColor (p_name product) (p_materials product))\<rparr>
           in if hasName product' then Some product' else None)
      | _ \<Rightarrow> None)"

definition curated :: "string \<Rightarrow> string \<times> fetch \<Rightarrow> product option" where
  "curated category uf =
     (case extractProductInfo (cleanUrl (fst uf)) True (snd uf) of
        (l, Returned (Some product)) \<Rightarrow>
          if hasName product then Some (curate category product) else None
      | _ \<Rightarrow> None)"

definition logsFailure :: "string \<Rightarrow> logEntry list \<Rightarrow> bool" where
  "logsFailure url lg \<longleftrightarrow>
     ExtractError url \<in> set lg \<or> SkippedNoName url \<in> set lg \<or> ScrapeError url \<in> set lg"

section \<open>Properties of the composition parser\<close>

subsection \<open>Substrings and the cleaned fiber name\<close>
















subsection \<open>The cotton flag\<close>






subsection \<open>The primary cotton percentage\<close>














section \<open>Properties of the category normaliser\<close>

text \<open>
  Claim C5. For each of the four canonical categories, every variation that
  \<open>getCategoryVariations\<close> lists for it is normalised back to that category.
\<close>

theorem category_round_trip:
  "\<forall>c \<in> set [''tops'', ''pants'', ''skirts'', ''dresses''].
     \<forall>v \<in> set (getCategoryVariations c). normalizeCategory (Some v) = Some c"
  by code_simp

text \<open>The theorem at the category \<open>tops\<close> and its variation \<open>t-shirt\<close>.\<close>

theorem category_round_trip_witness:
  "''tops'' \<in> set [''tops'', ''pants'', ''skirts'', ''dresses'']
   \<and> ''t-shirt'' \<in> set (getCategoryVariations ''tops'')
   \<and> normalizeCategory (Some ''t-shirt'') = Some ''tops''"
proof -
  have a: "''tops'' \<in> set [''tops'', ''pants'', ''skirts'', ''dresses'']" by simp
  have b: "''t-shirt'' \<in> set (getCategoryVariations ''tops'')" by code_simp
  note c = category_round_trip[rule_format, OF a b]
  from a b c show ?thesis by (intro conjI)
qed






section \<open>Properties of the product builder\<close>

lemma scenario_facts:
  "determineCategory (Some ''https://www.zara.com/ca/en/woman/product/p123456.html'')
     (Some ''Cotton Crew Tee'') (Some ''Shell: 95% Cotton, 5% Elastane.'') = ''tshirts''"
  "determineGender (Some ''https://www.zara.com/ca/en/woman/product/p123456.html'') = ''female''"
  "getCottonPercentage (Some ''Shell: 95% Cotton, 5% Elastane.'') = 95"
  "isCotton90 (parseComposition (Some ''Shell: 95% Cotton, 5% Elastane.''))"
  "extractColor (Some ''Cotton Crew Tee'') (Some ''Shell: 95% Cotton, 5% Elastane.'') = ''Various''"
  "extractColor_curated (Some ''Cotton Crew Tee'') (Some ''Shell: 95% Cotton, 5% Elastane.'')
     = ''Various''"
  "normalizeCategory (Some ''tshirts'') = Some ''tops''"
  "js_includes (toLowerCase ''Cotton Crew Tee'') ''tee''"
  "toLowerCase ''Cotton Crew Tee'' = ''cotton crew tee''"
  by code_simp+

lemma sublist_middle: "sublist w b \<Longrightarrow> sublist w (a @ s1 @ b @ s2 @ c)"
  by (simp add: sublist_append)

lemma scenario_never_tops:
  "determineCategory (Some u) (Some ''Cotton Crew Tee'') desc \<noteq> ''tops''"
proof -
  have "sublist ''tee'' (toLowerCase (orEmpty (Some ''Cotton Crew Tee'')))"
    using scenario_facts(8) by (simp add: js_includes_def orEmpty_def)
  then have "js_includes (toLowerCase (orEmpty (Some u)) @ '' ''
      @ toLowerCase (orEmpty (Some ''Cotton Crew Tee'')) @ '' '' @ toLowerCase (orEmpty desc)) ''tee''"
    unfolding js_includes_def by (rule sublist_middle)
  then show ?thesis
    unfolding determineCategory_def Let_def
    by (simp only: simp_thms if_True split: if_split) simp
qed


lemma buildProduct_fields:
  assumes "buildProduct url rnd d = Some p"
  shows "p_category p = Some (determineCategory (Some url) (Some (rd_name d)) (Some (rd_materials d)))"
    and "p_gender p = Some (determineGender (Some url))"
    and "p_cottonPercentage p = Some (getCottonPercentage (Some (rd_materials d)))"
    and "p_is_cotton_90 p = Some (isCotton90 (parseComposition (Some (rd_materials d))))"
    and "p_name p = Some (rd_name d)"
    and "p_materials p = Some (if rd_materials d = [] then ''Material information not available''
                               else rd_materials d)"
    and "p_url p = url"
    and "rd_name d \<noteq> []" and "rd_name d \<noteq> ''Unknown Product''"
proof -
  from assms have n: "\<not> (rd_name d = [] \<or> rd_name d = ''Unknown Product'')"
    unfolding buildProduct_def Let_def by (cases "rd_name d = [] \<or> rd_name d = ''Unknown Product''") simp_all
  from n show "rd_name d \<noteq> []" and "rd_name d \<noteq> ''Unknown Product''" by simp_all
  from assms n have p: "p = \<lparr>
           p_id = Some (case matchProductId url of Some n \<Rightarrow> n | None \<Rightarrow> rnd),
           p_name = Some (rd_name d),
           p_site = Some ''zara'',
           p_brand = Some ''Zara'',
           p_price = Some (rd_price d),
           p_currency = Some ''CAD'',
           p_cottonPercentage = Some (getCottonPercentage (Some (rd_materials d))),
           p_materials = Some (if rd_materials d = []
                               then ''Material information not available''
                               else rd_materials d),
           p_composition_parsed = Some (composition (parseComposition (Some (rd_materials d)))),
           p_is_cotton_90 = Some (isCotton90 (parseComposition (Some (rd_materials d)))),
           p_images = Some (rd_images d),
           p_image = Some (case rd_images d of [] \<Rightarrow> [] | i # _ \<Rightarrow> i),
           p_sizes_available = Some (rd_sizes d),
           p_category = Some (determineCategory (Some url) (Some (rd_name d)) (Some (rd_materials d))),
           p_gender = Some (determineGender (Some url)),
           p_url = url,
           p_color = None,
           p_isCurated = None \<rparr>"
    unfolding buildProduct_def Let_def by (simp only: if_False option.inject)
  show "p_category p = Some (determineCategory (Some url) (Some (rd_name d)) (Some (rd_materials d)))"
    by (simp only: p product.select_convs)
  show "p_gender p = Some (determineGender (Some url))" by (simp only: p product.select_convs)
  show "p_cottonPercentage p = Some (getCottonPercentage (Some (rd_materials d)))"
    by (simp only: p product.select_convs)
  show "p_is_cotton_90 p = Some (isCotton90 (parseComposition (Some (rd_materials d))))"
    by (simp only: p product.select_convs)
  show "p_name p = Some (rd_name d)" by (simp only: p product.select_convs)
  show "p_materials p = Some (if rd_materials d = [] then ''Material information not available''
                               else rd_materials d)" by (simp only: p product.select_convs)
  show "p_url p = url" by (simp only: p product.select_convs)
qed

lemma buildProduct_Some:
  assumes "rd_name d \<noteq> []" and "rd_name d \<noteq> ''Unknown Product''"
  shows "\<exists>p. buildProduct url rnd d = Some p"
  unfolding buildProduct_def Let_def using assms by (simp only: simp_thms if_False) blast


lemma scenario_curated:
  "normalizedCategory (toLowerCase (orEmpty (Some ''Cotton Crew Tee''))) cat = ''tops''"
  unfolding normalizedCategory_def orEmpty_def option.case using scenario_facts(8)
  by (simp only: simp_thms if_True)


lemma curate_fields:
  "p_category (curate cat p) = Some (normalizedCategory (toLowerCase (orEmpty (p_name p))) cat)"
  "p_color (curate cat p) = Some (extractColor_curated (p_name p) (p_materials p))"
  "p_is_cotton_90 (curate cat p) = p_is_cotton_90 p"
  "p_isCurated (curate cat p) = Some True"
  "p_name (curate cat p) = p_name p"
  by (simp_all add: curate_def)

text \<open>
  Claim C3, as the code has it. From the page data with the name \<open>Cotton Crew Tee\<close> and
  the text \<open>Shell: 95% Cotton, 5% Elastane.\<close>, at the URL
  \<open>https://www.zara.com/ca/en/woman/product/p123456.html\<close>, the scraper builds a product
  with category \<open>tshirts\<close> (from \<open>tee\<close> in the name), gender \<open>female\<close>, cotton percentage
  95 and the cotton flag set; its colour is \<open>Various\<close>. The category becomes \<open>tops\<close> when
  \<open>normalizeCategory\<close> is applied to it and when the product goes through the curated
  scrape, whatever list it is in. With this name and text the scraper gives the category
  \<open>tops\<close> at no URL.
\<close>

theorem end_to_end_scenario:
  "\<exists>p. buildProduct ''https://www.zara.com/ca/en/woman/product/p123456.html'' rnd
          \<lparr>rd_name = ''Cotton Crew Tee'', rd_price = pr,
           rd_materials = ''Shell: 95% Cotton, 5% Elastane.'',
           rd_images = imgs, rd_sizes = szs\<rparr> = Some p
     \<and> p_category p = Some ''tshirts''
     \<and> normalizeCategory (p_category p) = Some ''tops''
     \<and> p_category (curate cat p) = Some ''tops''
     \<and> p_gender p = Some ''female''
     \<and> p_cottonPercentage p = Some 95
     \<and> p_is_cotton_90 p = Some True
     \<and> extractColor (p_name p) (p_materials p) = ''Various''
     \<and> p_color (curate cat p) = Some ''Various''
     \<and> determineCategory (Some u) (Some ''Cotton Crew Tee'')
          (Some ''Shell: 95% Cotton, 5% Elastane.'') \<noteq> ''tops''"
proof -
  let ?d = "\<lparr>rd_name = ''Cotton Crew Tee'', rd_price = pr,
           rd_materials = ''Shell: 95% Cotton, 5% Elastane.'',
           rd_images = imgs, rd_sizes = szs\<rparr>"
  have "rd_name ?d \<noteq> []" and "rd_name ?d \<noteq> ''Unknown Product''" by simp_all
  from buildProduct_Some[OF this] obtain p
    where b: "buildProduct ''https://www.zara.com/ca/en/woman/product/p123456.html'' rnd ?d = Some p"
    by blast
  note f = buildProduct_fields[OF b]
  have n: "p_name p = Some ''Cotton Crew Tee''" using f(5) by simp
  have m: "p_materials p = Some ''Shell: 95% Cotton, 5% Elastane.''" using f(6) by simp
  have c1: "p_category p = Some ''tshirts''" using f(1) by (simp add: scenario_facts(1))
  have c2: "normalizeCategory (p_category p) = Some ''tops''"
    by (simp only: c1 scenario_facts(7))
  have c3: "p_category (curate cat p) = Some ''tops''"
    by (simp only: curate_fields n scenario_curated)
  have c4: "p_gender p = Some ''female''" using f(2) by (simp add: scenario_facts(2))
  have c5: "p_cottonPercentage p = Some 95" using f(3) by (simp add: scenario_facts(3))
  have c6: "p_is_cotton_90 p = Some True" using f(4) by (simp add: scenario_facts(4))
  have c7: "extractColor (p_name p) (p_materials p) = ''Various''"
    by (simp only: n m scenario_facts(5))
  have c8: "p_color (curate cat p) = Some ''Various''"
    by (simp only: curate_fields n m scenario_facts(6))
  note c9 = scenario_never_tops[of u "Some ''Shell: 95% Cotton, 5% Elastane.''"]
  from b c1 c2 c3 c4 c5 c6 c7 c8 c9 show ?thesis by (intro exI[of _ p] conjI)
qed

text \<open>The claim as worded fails: the category of the built product is \<open>tshirts\<close>.\<close>

theorem end_to_end_scenario_counterexample:
  "map_option p_category
     (buildProduct ''https://www.zara.com/ca/en/woman/product/p123456.html'' []
        \<lparr>rd_name = ''Cotton Crew Tee'', rd_price = 0,
         rd_materials = ''Shell: 95% Cotton, 5% Elastane.'',
         rd_images = [], rd_sizes = []\<rparr>) = Some (Some ''tshirts'')"
proof -
  let ?d = "\<lparr>rd_name = ''Cotton Crew Tee'', rd_price = 0,
         rd_materials = ''Shell: 95% Cotton, 5% Elastane.'',
         rd_images = [], rd_sizes = []\<rparr>"
  have "rd_name ?d \<noteq> []" and "rd_name ?d \<noteq> ''Unknown Product''" by simp_all
  from buildProduct_Some[OF this] obtain p
    where b: "buildProduct ''https://www.zara.com/ca/en/woman/product/p123456.html'' [] ?d = Some p"
    by blast
  have "p_category p = Some ''tshirts''"
    using buildProduct_fields(1)[OF b] by (simp add: scenario_facts(1))
  with b show ?thesis by simp
qed

section \<open>Properties of the repository\<close>

subsection \<open>The stored cotton flag\<close>

lemma productToDict_is_cotton_90:
  "d_is_cotton_90 (productToDict p t) =
     (case p_is_cotton_90 p of
        Some b \<Rightarrow> b
      | None \<Rightarrow> (case p_cottonPercentage p of None \<Rightarrow> False | Some n \<Rightarrow> 90 \<le> n))"
  by (simp add: productToDict_def)

lemma mock_first:
  "p_is_cotton_90 (hd allMockProducts) = None"
  "p_cottonPercentage (hd allMockProducts) = Some 100"
  by (simp_all add: allMockProducts_def mockProduct_def)

lemma organic_facts:
  "getCottonPercentage (Some ''95% organic cotton'') = 0"
  "isCotton90 (parseComposition (Some ''95% organic cotton''))"
  by code_simp+

text \<open>
  Claim C7, as the code has it. For a product that carries \<open>is_cotton_90\<close> the stored flag
  is that value, whatever the product's \<open>cottonPercentage\<close>. Every product the scraper
  builds carries the flag computed by \<open>parseComposition\<close> on its composition text, and
  the colour and the curation added later leave it, so for these the stored flag is the
  parsed one. For a product without \<open>is_cotton_90\<close> the stored flag is the comparison of
  \<open>cottonPercentage\<close> with 90.
\<close>

theorem stored_flag_from_product:
  "(p_is_cotton_90 p = Some b \<longrightarrow>
      d_is_cotton_90 (productToDict (p\<lparr>p_cottonPercentage := c\<rparr>) t) = b)
   \<and> (buildProduct url rnd d = Some q \<longrightarrow>
        d_is_cotton_90 (productToDict q t) = isCotton90 (parseComposition (Some (rd_materials d)))
        \<and> d_is_cotton_90 (productToDict (q\<lparr>p_color := col\<rparr>) t)
            = isCotton90 (parseComposition (Some (rd_materials d)))
        \<and> d_is_cotton_90 (productToDict (curate cat q) t)
            = isCotton90 (parseComposition (Some (rd_materials d))))
   \<and> (p_is_cotton_90 p = None \<longrightarrow>
        d_is_cotton_90 (productToDict p t)
          = (case p_cottonPercentage p of None \<Rightarrow> False | Some n \<Rightarrow> 90 \<le> n))"
proof (intro conjI impI)
  assume "p_is_cotton_90 p = Some b"
  then show "d_is_cotton_90 (productToDict (p\<lparr>p_cottonPercentage := c\<rparr>) t) = b"
    by (simp add: productToDict_is_cotton_90)
next
  assume b: "buildProduct url rnd d = Some q"
  note f = buildProduct_fields(4)[OF b]
  show "d_is_cotton_90 (productToDict q t) = isCotton90 (parseComposition (Some (rd_materials d)))"
    by (simp add: productToDict_is_cotton_90 f)
  show "d_is_cotton_90 (productToDict (q\<lparr>p_color := col\<rparr>) t)
            = isCotton90 (parseComposition (Some (rd_materials d)))"
    by (simp add: productToDict_is_cotton_90 f)
  show "d_is_cotton_90 (productToDict (curate cat q) t)
            = isCotton90 (parseComposition (Some (rd_materials d)))"
    by (simp add: productToDict_is_cotton_90 curate_fields f)
next
  assume "p_is_cotton_90 p = None"
  then show "d_is_cotton_90 (productToDict p t)
          = (case p_cottonPercentage p of None \<Rightarrow> False | Some n \<Rightarrow> 90 \<le> n)"
    by (simp add: productToDict_is_cotton_90)
qed

text \<open>
  The theorem at a product built from \<open>95% organic cotton\<close>, whose cotton percentage is 0
  and whose flag is set, and at the first mock product, which has no flag.
\<close>

theorem stored_flag_from_product_witness:
  "\<exists>q. buildProduct ''https://www.zara.com/ca/en/organic-tee-p01234567.html'' []
          \<lparr>rd_name = ''Organic Tee'', rd_price = 0, rd_materials = ''95% organic cotton'',
           rd_images = [], rd_sizes = []\<rparr> = Some q
     \<and> p_cottonPercentage q = Some 0
     \<and> p_is_cotton_90 q = Some True
     \<and> d_is_cotton_90 (productToDict q 0)
     \<and> d_is_cotton_90 (productToDict (q\<lparr>p_cottonPercentage := Some 0\<rparr>) 0)
     \<and> p_is_cotton_90 (hd allMockProducts) = None
     \<and> d_is_cotton_90 (productToDict (hd allMockProducts) 0)"
proof -
  let ?d = "\<lparr>rd_name = ''Organic Tee'', rd_price = 0, rd_materials = ''95% organic cotton'',
           rd_images = [], rd_sizes = []\<rparr>"
  have "rd_name ?d \<noteq> []" and "rd_name ?d \<noteq> ''Unknown Product''" by simp_all
  from buildProduct_Some[OF this] obtain q
    where b: "buildProduct ''https://www.zara.com/ca/en/organic-tee-p01234567.html'' [] ?d = Some q"
    by blast
  note f = buildProduct_fields[OF b]
  have c: "p_cottonPercentage q = Some 0" using f(3) by (simp add: organic_facts)
  have i: "p_is_cotton_90 q = Some True" using f(4) by (simp add: organic_facts)
  note t1 = stored_flag_from_product[of q True "Some 0" 0, THEN conjunct1, THEN mp, OF i]
  note t2 = stored_flag_from_product[where url = "''https://www.zara.com/ca/en/organic-tee-p01234567.html''"
      and rnd = "[]" and d = ?d and q = q and t = 0, THEN conjunct2, THEN conjunct1, THEN mp, OF b,
      THEN conjunct1]
  note t3 = stored_flag_from_product[where p = "hd allMockProducts" and t = 0, THEN conjunct2,
      THEN conjunct2, THEN mp, OF mock_first(1)]
  have s1: "d_is_cotton_90 (productToDict q 0)" using t2 by (simp add: organic_facts)
  have s2: "d_is_cotton_90 (productToDict (q\<lparr>p_cottonPercentage := Some 0\<rparr>) 0)"
    using t1 by simp
  have s3: "d_is_cotton_90 (productToDict (hd allMockProducts) 0)"
    using t3 by (simp add: mock_first(2))
  from b c i s1 s2 mock_first(1) s3 show ?thesis by (intro exI[of _ q] conjI)
qed

text \<open>
  The claim as worded fails for the mock products, which reach the repository after a
  failed search and carry no flag: the stored flag of the first one is true, and it is
  false once its \<open>cottonPercentage\<close> is 50.
\<close>

theorem stored_flag_from_product_counterexample:
  "p_is_cotton_90 (hd allMockProducts) = None
   \<and> d_is_cotton_90 (productToDict (hd allMockProducts) 0)
   \<and> \<not> d_is_cotton_90 (productToDict ((hd allMockProducts)\<lparr>p_cottonPercentage := Some 50\<rparr>) 0)"
  by (simp add: productToDict_is_cotton_90 mock_first)

subsection \<open>Upserting a product twice\<close>

lemma updateOne_same:
  assumes "d_url sf = u"
  shows "filter (\<lambda>d. d_url d = u) (updateOne u sf c ds) =
     (case filter (\<lambda>d. d_url d = u) ds of
        [] \<Rightarrow> [sf\<lparr>d_createdAt := Some c\<rparr>]
      | d0 # rest \<Rightarrow> sf\<lparr>d_createdAt := d_createdAt d0\<rparr> # rest)"
  using assms by (induction ds) auto

lemma updateOne_other:
  assumes "d_url sf = u" and "u' \<noteq> u"
  shows "filter (\<lambda>d. d_url d = u') (updateOne u sf c ds) = filter (\<lambda>d. d_url d = u') ds"
  using assms by (induction ds) auto

lemma productToDict_url: "d_url (productToDict p t) = p_url p"
  by (simp add: productToDict_def)

lemma upsertProduct_connected:
  assumes "connected w"
  shows "\<exists>w'. upsertProduct clock p w = Returned w' \<and> connected w' \<and> reads w' = reads w + 3
     \<and> stored (p_url p) w' =
         (case stored (p_url p) w of
            [] \<Rightarrow> [(productToDict p (clock (reads w)))
                     \<lparr>d_updatedAt := clock (reads w + 1), d_createdAt := Some (clock (reads w + 2))\<rparr>]
          | d0 # rest \<Rightarrow> (productToDict p (clock (reads w)))
                     \<lparr>d_updatedAt := clock (reads w + 1), d_createdAt := d_createdAt d0\<rparr> # rest)
     \<and> (\<forall>u. u \<noteq> p_url p \<longrightarrow> stored u w' = stored u w)"
proof -
  let ?sf = "(productToDict p (clock (reads w)))\<lparr>d_updatedAt := clock (reads w + 1)\<rparr>"
  let ?w' = "w\<lparr>docs := updateOne (p_url p) ?sf (clock (reads w + 2)) (docs w), reads := reads w + 3\<rparr>"
  have u: "d_url ?sf = p_url p" by (simp add: productToDict_url)
  have r: "upsertProduct clock p w = Returned ?w'"
    using assms by (simp add: upsertProduct_def Let_def)
  have dw: "docs ?w' = updateOne (p_url p) ?sf (clock (reads w + 2)) (docs w)" by simp
  have s: "stored (p_url p) ?w' =
         (case stored (p_url p) w of
            [] \<Rightarrow> [?sf\<lparr>d_createdAt := Some (clock (reads w + 2))\<rparr>]
          | d0 # rest \<Rightarrow> ?sf\<lparr>d_createdAt := d_createdAt d0\<rparr> # rest)"
    unfolding stored_def dw by (rule updateOne_same[OF u])
  have o: "\<forall>u. u \<noteq> p_url p \<longrightarrow> stored u ?w' = stored u w"
    unfolding stored_def dw using updateOne_other[OF u] by blast
  from r s o assms show ?thesis by simp
qed

lemma upsert_keeps_unique:
  assumes "connected w" and "length (stored u w) \<le> 1"
  shows "\<exists>w'. upsertProduct clock q w = Returned w' \<and> connected w' \<and> length (stored u w') \<le> 1"
proof -
  from upsertProduct_connected[OF assms(1), of clock q] obtain w'
    where r: "upsertProduct clock q w = Returned w'" and c: "connected w'"
      and s: "stored (p_url q) w' =
         (case stored (p_url q) w of
            [] \<Rightarrow> [(productToDict q (clock (reads w)))
                     \<lparr>d_updatedAt := clock (reads w + 1), d_createdAt := Some (clock (reads w + 2))\<rparr>]
          | d0 # rest \<Rightarrow> (productToDict q (clock (reads w)))
                     \<lparr>d_updatedAt := clock (reads w + 1), d_createdAt := d_createdAt d0\<rparr> # rest)"
      and o: "\<forall>u. u \<noteq> p_url q \<longrightarrow> stored u w' = stored u w"
    by blast
  have "length (stored u w') \<le> 1"
  proof (cases "u = p_url q")
    case True
    with s assms(2) show ?thesis by (cases "stored (p_url q) w") auto
  next
    case False
    with o assms(2) show ?thesis by simp
  qed
  with r c show ?thesis by blast
qed

lemma bulk_single: "connected w \<Longrightarrow> bulkUpsertProducts clock [p] w = upsertProduct clock p w"
  by (simp add: bulkUpsertProducts_def split: outcome.splits)

text \<open>
  Claim C2. On a connected database that holds at most one document for the product's
  URL, with a clock that never goes back, two calls of \<open>bulkUpsertProducts\<close> with the one
  product succeed and leave exactly one document for the URL after each call. Its
  \<open>createdAt\<close> is the same after both: the date read by the first call when the URL was
  new, and the one already stored otherwise. Its \<open>updatedAt\<close> is the second date read by
  each call, so that of the second call is not before that of the first. An upsert keeps
  the number of documents of any URL at most one, so every collection filled by upserts
  alone holds at most one document per URL.
\<close>

theorem upsert_twice:
  "(connected w \<and> mono clock \<and> length (stored (p_url p) w) \<le> 1 \<longrightarrow>
     (\<exists>w1 w2 d1 d2.
        bulkUpsertProducts clock [p] w = Returned w1
      \<and> bulkUpsertProducts clock [p] w1 = Returned w2
      \<and> stored (p_url p) w1 = [d1] \<and> stored (p_url p) w2 = [d2]
      \<and> d_createdAt d2 = d_createdAt d1
      \<and> d_createdAt d1 = (case stored (p_url p) w of
                             [] \<Rightarrow> Some (clock (reads w + 2))
                           | d0 # _ \<Rightarrow> d_createdAt d0)
      \<and> d_updatedAt d1 = clock (reads w + 1) \<and> d_updatedAt d2 = clock (reads w + 4)
      \<and> d_updatedAt d1 \<le> d_updatedAt d2))
   \<and> (connected w \<and> length (stored u w) \<le> 1 \<longrightarrow>
        (\<exists>w'. upsertProduct clock q w = Returned w' \<and> connected w'
              \<and> length (stored u w') \<le> 1))"
proof (intro conjI impI)
  assume a: "connected w \<and> length (stored u w) \<le> 1"
  then show "\<exists>w'. upsertProduct clock q w = Returned w' \<and> connected w'
              \<and> length (stored u w') \<le> 1"
    using upsert_keeps_unique by blast
next
  assume a: "connected w \<and> mono clock \<and> length (stored (p_url p) w) \<le> 1"
  then have cw: "connected w" and m: "mono clock" and l: "length (stored (p_url p) w) \<le> 1"
    by simp_all
  let ?doc = "\<lambda>w. productToDict p (clock (reads w))"
  from upsertProduct_connected[OF cw, of clock p] obtain w1
    where r1: "upsertProduct clock p w = Returned w1" and c1: "connected w1"
      and rd1: "reads w1 = reads w + 3"
      and s1: "stored (p_url p) w1 =
         (case stored (p_url p) w of
            [] \<Rightarrow> [(?doc w)\<lparr>d_updatedAt := clock (reads w + 1), d_createdAt := Some (clock (reads w + 2))\<rparr>]
          | d0 # rest \<Rightarrow> (?doc w)\<lparr>d_updatedAt := clock (reads w + 1), d_createdAt := d_createdAt d0\<rparr> # rest)"
    by blast
  from upsertProduct_connected[OF c1, of clock p] obtain w2
    where r2: "upsertProduct clock p w1 = Returned w2"
      and s2: "stored (p_url p) w2 =
         (case stored (p_url p) w1 of
            [] \<Rightarrow> [(?doc w1)\<lparr>d_updatedAt := clock (reads w1 + 1), d_createdAt := Some (clock (reads w1 + 2))\<rparr>]
          | d0 # rest \<Rightarrow> (?doc w1)\<lparr>d_updatedAt := clock (reads w1 + 1), d_createdAt := d_createdAt d0\<rparr> # rest)"
    by blast
  define d1 where "d1 = (?doc w)\<lparr>d_updatedAt := clock (reads w + 1),
      d_createdAt := (case stored (p_url p) w of [] \<Rightarrow> Some (clock (reads w + 2))
                      | d0 # _ \<Rightarrow> d_createdAt d0)\<rparr>"
  define d2 where "d2 = (?doc w1)\<lparr>d_updatedAt := clock (reads w1 + 1), d_createdAt := d_createdAt d1\<rparr>"
  have e1: "stored (p_url p) w1 = [d1]"
    using s1 l unfolding d1_def by (cases "stored (p_url p) w") auto
  have e2: "stored (p_url p) w2 = [d2]"
    using s2 e1 unfolding d2_def by simp
  have "reads w + 1 \<le> reads w + 4" by simp
  with m have le: "clock (reads w + 1) \<le> clock (reads w + 4)" by (rule monoD)
  have "bulkUpsertProducts clock [p] w = Returned w1
      \<and> bulkUpsertProducts clock [p] w1 = Returned w2
      \<and> stored (p_url p) w1 = [d1] \<and> stored (p_url p) w2 = [d2]
      \<and> d_createdAt d2 = d_createdAt d1
      \<and> d_createdAt d1 = (case stored (p_url p) w of
                             [] \<Rightarrow> Some (clock (reads w + 2))
                           | d0 # _ \<Rightarrow> d_createdAt d0)
      \<and> d_updatedAt d1 = clock (reads w + 1) \<and> d_updatedAt d2 = clock (reads w + 4)
      \<and> d_updatedAt d1 \<le> d_updatedAt d2"
    using r1 r2 e1 e2 le cw c1 rd1 by (simp add: bulk_single d1_def d2_def add.commute)
  then show "\<exists>w1 w2 d1 d2.
        bulkUpsertProducts clock [p] w = Returned w1
      \<and> bulkUpsertProducts clock [p] w1 = Returned w2
      \<and> stored (p_url p) w1 = [d1] \<and> stored (p_url p) w2 = [d2]
      \<and> d_createdAt d2 = d_createdAt d1
      \<and> d_createdAt d1 = (case stored (p_url p) w of
                             [] \<Rightarrow> Some (clock (reads w + 2))
                           | d0 # _ \<Rightarrow> d_createdAt d0)
      \<and> d_updatedAt d1 = clock (reads w + 1) \<and> d_updatedAt d2 = clock (reads w + 4)
      \<and> d_updatedAt d1 \<le> d_updatedAt d2"
    by blast
qed

text \<open>
  The theorem at the empty collection, the first mock product and a clock that gives the
  number of the reading.
\<close>

theorem upsert_twice_witness:
  "connected \<lparr>connected = True, docs = [], reads = 0\<rparr>
   \<and> mono (\<lambda>n::nat. n)
   \<and> length (stored (p_url (hd allMockProducts)) \<lparr>connected = True, docs = [], reads = 0\<rparr>) \<le> 1
   \<and> (\<exists>w1 w2 d1 d2.
        bulkUpsertProducts (\<lambda>n. n) [hd allMockProducts] \<lparr>connected = True, docs = [], reads = 0\<rparr>
          = Returned w1
      \<and> bulkUpsertProducts (\<lambda>n. n) [hd allMockProducts] w1 = Returned w2
      \<and> stored (p_url (hd allMockProducts)) w1 = [d1]
      \<and> stored (p_url (hd allMockProducts)) w2 = [d2]
      \<and> d_createdAt d1 = Some 2 \<and> d_createdAt d2 = Some 2
      \<and> d_updatedAt d1 = 1 \<and> d_updatedAt d2 = 4)"
proof -
  let ?W = "\<lparr>connected = True, docs = [], reads = 0\<rparr>"
  let ?P = "hd allMockProducts"
  have h1: "connected ?W" by simp
  have h2: "mono (\<lambda>n::nat. n)" by (rule monoI) simp
  have st: "stored (p_url ?P) ?W = []" by (simp add: stored_def)
  have h3: "length (stored (p_url ?P) ?W) \<le> 1" by (simp add: st)
  from h1 h2 h3 have h: "connected ?W \<and> mono (\<lambda>n::nat. n) \<and> length (stored (p_url ?P) ?W) \<le> 1"
    by (intro conjI)
  from upsert_twice[of ?W "\<lambda>n. n" ?P, THEN conjunct1, THEN mp, OF h]
  obtain w1 w2 d1 d2 where
    a: "bulkUpsertProducts (\<lambda>n. n) [?P] ?W = Returned w1"
    and b: "bulkUpsertProducts (\<lambda>n. n) [?P] w1 = Returned w2"
    and c: "stored (p_url ?P) w1 = [d1]" and d: "stored (p_url ?P) w2 = [d2]"
    and e: "d_createdAt d2 = d_createdAt d1"
    and f: "d_createdAt d1 = (case stored (p_url ?P) ?W of
                             [] \<Rightarrow> Some (reads ?W + 2)
                           | d0 # _ \<Rightarrow> d_createdAt d0)"
    and g: "d_updatedAt d1 = reads ?W + 1" and i: "d_updatedAt d2 = reads ?W + 4"
    by blast
  from f have f': "d_createdAt d1 = Some 2" by (simp add: st)
  from e f' have e': "d_createdAt d2 = Some 2" by simp
  from g have g': "d_updatedAt d1 = 1" by simp
  from i have i': "d_updatedAt d2 = 4" by simp
  have "\<exists>w1 w2 d1 d2.
        bulkUpsertProducts (\<lambda>n. n) [?P] ?W = Returned w1
      \<and> bulkUpsertProducts (\<lambda>n. n) [?P] w1 = Returned w2
      \<and> stored (p_url ?P) w1 = [d1]
      \<and> stored (p_url ?P) w2 = [d2]
      \<and> d_createdAt d1 = Some 2 \<and> d_createdAt d2 = Some 2
      \<and> d_updatedAt d1 = 1 \<and> d_updatedAt d2 = 4"
    using a b c d f' e' g' i' by blast
  with h1 h2 h3 show ?thesis by (intro conjI)
qed

section \<open>Properties of the search\<close>


lemma searchZara_threw:
  "cache_get now c (cacheKey query limit) = None \<Longrightarrow>
     searchZara now later c query limit Threw
       = \<lparr>sr_value = Returned (getMockProducts query), sr_cache = c,
          sr_scraped = True, sr_log = [SearchError]\<rparr>"
  by (simp add: searchZara_def)

lemma searchZara_value: "sr_value (searchZara now later c query limit scrape) \<noteq> Threw"
  by (simp add: searchZara_def Let_def split: option.splits outcome.splits)

lemma mock_shirt:
  "map p_name (getMockProducts ''shirt'')
     = [Some ''Essential Cotton T-Shirt'', Some ''Premium Cotton Shirt'']"
  by code_simp

lemma empty_miss: "cache_get now Map.empty k = None"
  by (simp add: cache_get_def)

text \<open>
  Claim C9, as the code has it. \<open>searchZara\<close> never fails: when the cache has nothing for
  the query and the scraper throws, it logs the error and returns the mock products that
  match the query, and leaves the cache as it is.
\<close>

theorem searchZara_falls_back_to_mock:
  "sr_value (searchZara now later c query limit scrape) \<noteq> Threw
   \<and> (cache_get now c (cacheKey query limit) = None \<longrightarrow>
        sr_value (searchZara now later c query limit Threw) = Returned (getMockProducts query)
        \<and> sr_cache (searchZara now later c query limit Threw) = c
        \<and> sr_scraped (searchZara now later c query limit Threw)
        \<and> sr_log (searchZara now later c query limit Threw) = [SearchError])"
  by (simp add: searchZara_value searchZara_threw)

text \<open>The theorem at the query \<open>shirt\<close> on an empty cache.\<close>

theorem searchZara_falls_back_to_mock_witness:
  "cache_get 0 Map.empty (cacheKey ''shirt'' 10) = None
   \<and> sr_value (searchZara 0 0 Map.empty ''shirt'' 10 Threw) = Returned (getMockProducts ''shirt'')
   \<and> sr_log (searchZara 0 0 Map.empty ''shirt'' 10 Threw) = [SearchError]"
proof -
  note h = empty_miss[of 0 "cacheKey ''shirt'' 10"]
  note t = searchZara_falls_back_to_mock[of 0 0 Map.empty "''shirt''" 10 Threw, THEN conjunct2,
      THEN mp, OF h]
  from h t show ?thesis by (elim conjE) (intro conjI; assumption)
qed

text \<open>
  The claim as worded fails: when the scraper throws on the query \<open>shirt\<close>, the caller
  gets two mock products where it should get the failure.
\<close>

theorem searchZara_falls_back_to_mock_counterexample:
  "sr_value (searchZara 0 0 Map.empty ''shirt'' 10 Threw) = Returned (getMockProducts ''shirt'')
   \<and> map p_name (getMockProducts ''shirt'')
       = [Some ''Essential Cotton T-Shirt'', Some ''Premium Cotton Shirt'']"
  by (simp add: searchZara_threw[OF empty_miss] mock_shirt)







section \<open>Properties of the batch loops\<close>

lemma hasName_color: "hasName (p\<lparr>p_color := c\<rparr>) = hasName p"
  by (simp add: hasName_def)

lemma buildProduct_hasName: "buildProduct url rnd d = Some p \<Longrightarrow> hasName p"
  using buildProduct_fields(5,8,9)[of url rnd d p] by (simp add: hasName_def)

lemma extractProductInfo_Some:
  assumes "extractProductInfo url pg f = (l, Returned (Some p))"
  shows "hasName p"
proof -
  from assms obtain d where "f_page f = PageData d" and "buildProduct url (f_random f) d = Some p"
    by (auto simp: extractProductInfo_def Let_def split: if_splits pageResult.splits option.splits)
  then show ?thesis by (simp add: buildProduct_hasName)
qed

lemma extractProductInfo_None:
  assumes "extractProductInfo url pg f = (l, Returned None)"
  shows "l = [ExtractError url] \<or> l = [SkippedNoName url]"
  using assms
  by (auto simp: extractProductInfo_def Let_def split: if_splits pageResult.splits option.splits)

lemma extractProductInfo_page: "snd (extractProductInfo url True f) \<noteq> Threw"
  by (simp add: extractProductInfo_def Let_def)

lemma scraped_cases:
  "extractProductInfo u False f = (l, r) \<Longrightarrow>
     scraped (u, f) = (case r of
        Returned (Some product) \<Rightarrow>
          Some (product\<lparr>p_color := Some (extractColor (p_name product) (p_materials product))\<rparr>)
      | _ \<Rightarrow> None)"
  by (auto simp: scraped_def Let_def hasName_color dest: extractProductInfo_Some
        split: outcome.splits option.splits)

lemma scrapeLoop_products:
  "fst (scrapeLoop count urls (ps, length ps, lg))
     = ps @ take (count - length ps) (List.map_filter scraped urls)"
proof (induction urls arbitrary: ps lg)
  case Nil
  then show ?case by (simp add: List.map_filter_simps)
next
  case (Cons uf rest)
  obtain u f where uf: "uf = (u, f)" by (cases uf)
  obtain l r where e: "extractProductInfo u False f = (l, r)" by (cases "extractProductInfo u False f")
  show ?case
  proof (cases "count \<le> length ps")
    case True
    then show ?thesis by (simp add: uf)
  next
    case False
    then have pos: "count - length ps = Suc (count - Suc (length ps))" by simp
    show ?thesis
    proof (cases r)
      case Threw
      with False e Cons.IH[of ps] show ?thesis
        by (simp add: uf scraped_cases[OF e] List.map_filter_simps)
    next
      case (Returned x)
      show ?thesis
      proof (cases x)
        case None
        with Returned False e Cons.IH[of ps] show ?thesis
          by (simp add: uf scraped_cases[OF e] List.map_filter_simps)
      next
        case (Some p)
        let ?p' = "p\<lparr>p_color := Some (extractColor (p_name p) (p_materials p))\<rparr>"
        from Some Returned e have hn: "hasName ?p'"
          by (simp add: hasName_color extractProductInfo_Some)
        have "fst (scrapeLoop count (uf # rest) (ps, length ps, lg))
            = fst (scrapeLoop count rest (ps @ [?p'], length (ps @ [?p']), lg @ l))"
          using False e Some Returned hn by (simp add: uf Let_def)
        also have "\<dots> = (ps @ [?p']) @ take (count - length (ps @ [?p'])) (List.map_filter scraped rest)"
          by (rule Cons.IH)
        also have "\<dots> = ps @ take (count - length ps) (List.map_filter scraped (uf # rest))"
          using Some Returned by (simp add: uf scraped_cases[OF e] List.map_filter_simps pos)
        finally show ?thesis .
      qed
    qed
  qed
qed


lemma scrapeLoop_log_mono:
  "set lg \<subseteq> set (snd (snd (scrapeLoop count urls (ps, n, lg))))"
proof (induction urls arbitrary: ps n lg)
  case Nil
  then show ?case by simp
next
  case (Cons uf rest)
  obtain u f where uf: "uf = (u, f)" by (cases uf)
  obtain l r where e: "extractProductInfo u False f = (l, r)" by (cases "extractProductInfo u False f")
  have a: "set (lg @ l @ [ScrapeError u]) \<subseteq> set (snd (snd (scrapeLoop count rest (ps, n, lg @ l @ [ScrapeError u]))))"
    by (rule Cons.IH)
  have b: "set (lg @ l) \<subseteq> set (snd (snd (scrapeLoop count rest (ps, n, lg @ l))))"
    by (rule Cons.IH)
  have c: "\<And>p. set (lg @ l) \<subseteq> set (snd (snd (scrapeLoop count rest (ps @ [p], n + 1, lg @ l))))"
    by (rule Cons.IH)
  show ?case
    using a b c e by (auto simp: uf Let_def split: outcome.splits option.splits)
qed

lemma scrapeLoop_step:
  assumes "length ps < count"
  shows "\<exists>lg'. scrapeLoop count ((u, f) # rest) (ps, length ps, lg)
            = scrapeLoop count rest
                (ps @ (case scraped (u, f) of None \<Rightarrow> [] | Some p \<Rightarrow> [p]),
                 length (ps @ (case scraped (u, f) of None \<Rightarrow> [] | Some p \<Rightarrow> [p])), lg')
          \<and> set lg \<subseteq> set lg' \<and> (scraped (u, f) = None \<longrightarrow> logsFailure u lg')"
proof -
  obtain l r where e: "extractProductInfo u False f = (l, r)" by (cases "extractProductInfo u False f")
  show ?thesis
  proof (cases r)
    case Threw
    with assms e show ?thesis
      by (intro exI[of _ "lg @ l @ [ScrapeError u]"])
         (auto simp: scraped_cases[OF e] logsFailure_def)
  next
    case (Returned x)
    show ?thesis
    proof (cases x)
      case None
      with Returned e have "l = [ExtractError u] \<or> l = [SkippedNoName u]"
        by (simp add: extractProductInfo_None)
      with None Returned assms e show ?thesis
        by (intro exI[of _ "lg @ l"]) (auto simp: scraped_cases[OF e] logsFailure_def)
    next
      case (Some p)
      let ?p' = "p\<lparr>p_color := Some (extractColor (p_name p) (p_materials p))\<rparr>"
      from Some Returned e have hn: "hasName ?p'"
        by (simp add: hasName_color extractProductInfo_Some)
      with Some Returned assms e show ?thesis
        by (intro exI[of _ "lg @ l"]) (auto simp: scraped_cases[OF e] Let_def)
    qed
  qed
qed

lemma scrapeLoop_failure_logged:
  "i < length urls \<Longrightarrow> length ps + length (List.map_filter scraped (take i urls)) < count
     \<Longrightarrow> scraped (urls ! i) = None
     \<Longrightarrow> logsFailure (fst (urls ! i)) (snd (snd (scrapeLoop count urls (ps, length ps, lg))))"
proof (induction urls arbitrary: ps lg i)
  case Nil
  then show ?case by simp
next
  case (Cons uf rest)
  obtain u f where uf: "uf = (u, f)" by (cases uf)
  let ?c = "case scraped (u, f) of None \<Rightarrow> [] | Some p \<Rightarrow> [p]"
  from Cons.prems(2) have lt: "length ps < count" by simp
  from scrapeLoop_step[OF lt, of u f rest lg] obtain lg'
    where st: "scrapeLoop count ((u, f) # rest) (ps, length ps, lg)
            = scrapeLoop count rest (ps @ ?c, length (ps @ ?c), lg')"
      and "set lg \<subseteq> set lg'"
      and lf: "scraped (u, f) = None \<longrightarrow> logsFailure u lg'"
    by (elim exE conjE) (rule that; assumption)
  show ?case
  proof (cases i)
    case 0
    with Cons.prems(3) lf have "logsFailure u lg'" by (simp add: uf)
    moreover have "set lg' \<subseteq> set (snd (snd (scrapeLoop count rest (ps @ ?c, length (ps @ ?c), lg'))))"
      by (rule scrapeLoop_log_mono)
    ultimately have "logsFailure u (snd (snd (scrapeLoop count rest (ps @ ?c, length (ps @ ?c), lg'))))"
      by (auto simp: logsFailure_def)
    with 0 st show ?thesis by (simp add: uf)
  next
    case (Suc j)
    with Cons.prems(1) have j: "j < length rest" by simp
    have "length (List.map_filter scraped (take i (uf # rest)))
        = length ?c + length (List.map_filter scraped (take j rest))"
      by (simp add: Suc uf List.map_filter_simps split: option.splits)
    with Cons.prems(2)
    have b: "length (ps @ ?c) + length (List.map_filter scraped (take j rest)) < count"
      by simp
    from Cons.prems(3) Suc have n: "scraped (rest ! j) = None" by simp
    from Cons.IH[OF j b n, of lg'] st Suc show ?thesis by (simp add: uf)
  qed
qed


lemma extractProductInfo_log:
  "fst (extractProductInfo url pg f) = [] \<or> fst (extractProductInfo url pg f) = [ExtractError url]
     \<or> fst (extractProductInfo url pg f) = [SkippedNoName url]"
  by (simp add: extractProductInfo_def Let_def split: pageResult.splits option.splits)

lemma logsFailure_mono: "set lg \<subseteq> set lg' \<Longrightarrow> logsFailure u lg \<Longrightarrow> logsFailure u lg'"
  by (auto simp: logsFailure_def)

lemma curated_cases:
  assumes "extractProductInfo (cleanUrl u) True f = (l, r)"
  shows "r \<noteq> Threw"
    and "curated category (u, f) = (case r of
        Returned (Some product) \<Rightarrow> Some (curate category product)
      | _ \<Rightarrow> None)"
proof -
  from extractProductInfo_page[of "cleanUrl u" f] assms show "r \<noteq> Threw" by simp
  from assms show "curated category (u, f) = (case r of
        Returned (Some product) \<Rightarrow> Some (curate category product)
      | _ \<Rightarrow> None)"
    by (auto simp: curated_def dest: extractProductInfo_Some split: outcome.splits option.splits)
qed

lemma curatedUrlLoop_result:
  "\<exists>lg'. curatedUrlLoop category urls (ps, lg)
            = ((ps @ List.map_filter (curated category) urls, lg'), Returned ())
     \<and> set lg \<subseteq> set lg' \<and> (ScrapingFailed \<in> set lg' \<longrightarrow> ScrapingFailed \<in> set lg)
     \<and> (\<forall>uf \<in> set urls. curated category uf = None \<longrightarrow> logsFailure (cleanUrl (fst uf)) lg')"
proof (induction urls arbitrary: ps lg)
  case Nil
  then show ?case by (simp add: List.map_filter_simps)
next
  case (Cons uf rest)
  obtain u f where uf: "uf = (u, f)" by (cases uf)
  obtain l r where e: "extractProductInfo (cleanUrl u) True f = (l, r)"
    by (cases "extractProductInfo (cleanUrl u) True f")
  note cc = curated_cases(1)[OF e] curated_cases(2)[OF e, of category]
  from extractProductInfo_log[of "cleanUrl u" True f] e
  have ll: "l = [] \<or> l = [ExtractError (cleanUrl u)] \<or> l = [SkippedNoName (cleanUrl u)]" by simp
  then have nf: "ScrapingFailed \<notin> set l" by auto
  let ?c = "case curated category (u, f) of None \<Rightarrow> [] | Some p \<Rightarrow> [p]"
  have "\<exists>lg1. curatedUrlLoop category (uf # rest) (ps, lg)
            = curatedUrlLoop category rest (ps @ ?c, lg1)
          \<and> set lg \<subseteq> set lg1 \<and> (ScrapingFailed \<in> set lg1 \<longrightarrow> ScrapingFailed \<in> set lg)
          \<and> (curated category (u, f) = None \<longrightarrow> logsFailure (cleanUrl u) lg1)"
  proof (cases r)
    case Threw
    with cc(1) show ?thesis by simp
  next
    case (Returned x)
    show ?thesis
    proof (cases x)
      case None
      with Returned e have "l = [ExtractError (cleanUrl u)] \<or> l = [SkippedNoName (cleanUrl u)]"
        by (simp add: extractProductInfo_None)
      with None Returned e cc(2) show ?thesis
        by (intro exI[of _ "lg @ l @ [CouldNotExtract]"]) (auto simp: uf logsFailure_def)
    next
      case (Some p)
      with Returned e have "hasName p" by (simp add: extractProductInfo_Some)
      with Some Returned e cc(2) nf show ?thesis
        by (intro exI[of _ "lg @ l"]) (auto simp: uf)
    qed
  qed
  then obtain lg1 where
    s1: "curatedUrlLoop category (uf # rest) (ps, lg) = curatedUrlLoop category rest (ps @ ?c, lg1)"
    and m1: "set lg \<subseteq> set lg1" and f1: "ScrapingFailed \<in> set lg1 \<longrightarrow> ScrapingFailed \<in> set lg"
    and l1: "curated category (u, f) = None \<longrightarrow> logsFailure (cleanUrl u) lg1"
    by (elim exE conjE) (rule that; assumption)
  from Cons.IH[of "ps @ ?c" lg1] obtain lg' where
    s2: "curatedUrlLoop category rest (ps @ ?c, lg1)
           = (((ps @ ?c) @ List.map_filter (curated category) rest, lg'), Returned ())"
    and m2: "set lg1 \<subseteq> set lg'" and f2: "ScrapingFailed \<in> set lg' \<longrightarrow> ScrapingFailed \<in> set lg1"
    and l2: "\<forall>uf \<in> set rest. curated category uf = None \<longrightarrow> logsFailure (cleanUrl (fst uf)) lg'"
    by (elim exE conjE) (rule that; assumption)
  have p: "(ps @ ?c) @ List.map_filter (curated category) rest
      = ps @ List.map_filter (curated category) (uf # rest)"
    by (simp add: uf List.map_filter_simps split: option.splits)
  have "\<forall>uf' \<in> set (uf # rest). curated category uf' = None \<longrightarrow> logsFailure (cleanUrl (fst uf')) lg'"
    using l1 l2 m2 by (auto simp: uf intro: logsFailure_mono)
  with s1 s2 p m1 m2 f1 f2 show ?case
    by (intro exI[of _ lg']) auto
qed

lemma curatedLoop_result:
  "\<exists>lg'. curatedLoop table (ps, lg)
            = ((ps @ concat (map (\<lambda>(category, us). List.map_filter (curated category) us) table),
                lg'), Returned ())
     \<and> set lg \<subseteq> set lg' \<and> (ScrapingFailed \<in> set lg' \<longrightarrow> ScrapingFailed \<in> set lg)
     \<and> (\<forall>(category, us) \<in> set table. \<forall>uf \<in> set us.
           curated category uf = None \<longrightarrow> logsFailure (cleanUrl (fst uf)) lg')"
proof (induction table arbitrary: ps lg)
  case Nil
  then show ?case by simp
next
  case (Cons row rest)
  obtain category us where row: "row = (category, us)" by (cases row)
  from curatedUrlLoop_result[of category us ps lg] obtain lg1 where
    s1: "curatedUrlLoop category us (ps, lg)
           = ((ps @ List.map_filter (curated category) us, lg1), Returned ())"
    and m1: "set lg \<subseteq> set lg1" and f1: "ScrapingFailed \<in> set lg1 \<longrightarrow> ScrapingFailed \<in> set lg"
    and l1: "\<forall>uf \<in> set us. curated category uf = None \<longrightarrow> logsFailure (cleanUrl (fst uf)) lg1"
    by (elim exE conjE) (rule that; assumption)
  let ?ps1 = "ps @ List.map_filter (curated category) us"
  from Cons.IH[of ?ps1 lg1] obtain lg' where
    s2: "curatedLoop rest (?ps1, lg1)
           = ((?ps1 @ concat (map (\<lambda>(category, us). List.map_filter (curated category) us) rest),
               lg'), Returned ())"
    and m2: "set lg1 \<subseteq> set lg'" and f2: "ScrapingFailed \<in> set lg' \<longrightarrow> ScrapingFailed \<in> set lg1"
    and l2: "\<forall>(category, us) \<in> set rest. \<forall>uf \<in> set us.
           curated category uf = None \<longrightarrow> logsFailure (cleanUrl (fst uf)) lg'"
    by (elim exE conjE) (rule that; assumption)
  have "\<forall>uf \<in> set us. curated category uf = None \<longrightarrow> logsFailure (cleanUrl (fst uf)) lg'"
    using l1 m2 by (auto intro: logsFailure_mono)
  with l2 have "\<forall>(category, us) \<in> set (row # rest). \<forall>uf \<in> set us.
           curated category uf = None \<longrightarrow> logsFailure (cleanUrl (fst uf)) lg'"
    by (simp add: row)
  with s1 s2 m1 m2 f1 f2 show ?case
    by (intro exI[of _ lg']) (auto simp: row)
qed


lemma scrapeZaraCategory_loop:
  "urls \<noteq> [] \<Longrightarrow> scrapeZaraCategory count (Returned urls)
     = (fst (scrapeLoop count urls ([], 0, [])), snd (snd (scrapeLoop count urls ([], 0, []))))"
  by (simp add: scrapeZaraCategory_def split: prod.splits)

lemma scrapeCuratedUrls_result:
  "\<exists>lg'. scrapeCuratedUrls table
            = (concat (map (\<lambda>(category, us). List.map_filter (curated category) us) table), lg')
     \<and> ScrapingFailed \<notin> set lg'
     \<and> (\<forall>(category, us) \<in> set table. \<forall>uf \<in> set us.
           curated category uf = None \<longrightarrow> logsFailure (cleanUrl (fst uf)) lg')"
proof -
  from curatedLoop_result[of table "[]" "[]"] obtain lg' where
    s: "curatedLoop table ([], [])
          = (([] @ concat (map (\<lambda>(category, us). List.map_filter (curated category) us) table),
              lg'), Returned ())"
    and "set [] \<subseteq> set lg'"
    and f: "ScrapingFailed \<in> set lg' \<longrightarrow> ScrapingFailed \<in> set []"
    and l: "\<forall>(category, us) \<in> set table. \<forall>uf \<in> set us.
           curated category uf = None \<longrightarrow> logsFailure (cleanUrl (fst uf)) lg'"
    by (elim exE conjE) (rule that; assumption)
  from s f l show ?thesis
    by (intro exI[of _ lg']) (simp add: scrapeCuratedUrls_def)
qed

lemma scraped_good:
  assumes "f_launch_ok f" and "f_close_ok f" and "f_page f = PageData d"
    and "rd_name d \<noteq> []" and "rd_name d \<noteq> ''Unknown Product''"
  shows "\<exists>p. scraped (u, f) = Some p"
proof -
  from buildProduct_Some[OF assms(4,5), of u "f_random f"] obtain p
    where "buildProduct u (f_random f) d = Some p" by blast
  with assms(1-3) have "extractProductInfo u False f = ([], Returned (Some p))"
    by (simp add: extractProductInfo_def Let_def)
  from scraped_cases[OF this] show ?thesis by simp
qed

lemma curated_good:
  assumes "f_page f = PageData d"
    and "rd_name d \<noteq> []" and "rd_name d \<noteq> ''Unknown Product''"
  shows "\<exists>p. curated category (u, f) = Some p"
proof -
  from buildProduct_Some[OF assms(2,3), of "cleanUrl u" "f_random f"] obtain p
    where "buildProduct (cleanUrl u) (f_random f) d = Some p" by blast
  with assms(1) have "extractProductInfo (cleanUrl u) True f = ([], Returned (Some p))"
    by (simp add: extractProductInfo_def Let_def)
  from curated_cases(2)[OF this, of category] show ?thesis by simp
qed

text \<open>
  Claim C8. \<open>scrapeZaraCategory\<close> returns the products of the URLs that can be fetched and
  built, in order, up to the count asked for: a URL that fails contributes nothing and
  stops nothing. Every URL that the loop reaches before the count is met, and that fails,
  is named in a failure message on the console. \<open>scrapeCuratedUrls\<close> returns the products
  of all the URLs of all its lists that can be fetched and built, in order; the run is
  never cut short, and every URL that fails is named in a failure message.
\<close>

theorem batch_skips_failures:
  "fst (scrapeZaraCategory count (Returned urls)) = take count (List.map_filter scraped urls)
   \<and> (i < length urls \<and> length (List.map_filter scraped (take i urls)) < count
        \<and> scraped (urls ! i) = None
       \<longrightarrow> logsFailure (fst (urls ! i)) (snd (scrapeZaraCategory count (Returned urls))))
   \<and> fst (scrapeCuratedUrls table)
       = concat (map (\<lambda>(category, us). List.map_filter (curated category) us) table)
   \<and> ScrapingFailed \<notin> set (snd (scrapeCuratedUrls table))
   \<and> ((category, us) \<in> set table \<and> uf \<in> set us \<and> curated category uf = None
       \<longrightarrow> logsFailure (cleanUrl (fst uf)) (snd (scrapeCuratedUrls table)))"
proof (intro conjI impI)
  show "fst (scrapeZaraCategory count (Returned urls)) = take count (List.map_filter scraped urls)"
  proof (cases "urls = []")
    case True
    then show ?thesis by (simp add: scrapeZaraCategory_def List.map_filter_simps)
  next
    case False
    from scrapeLoop_products[of count urls "[]" "[]"] show ?thesis
      by (simp add: scrapeZaraCategory_loop[OF False])
  qed
next
  assume a: "i < length urls \<and> length (List.map_filter scraped (take i urls)) < count
        \<and> scraped (urls ! i) = None"
  then have ne: "urls \<noteq> []" by auto
  from a have a1: "i < length urls"
    and a2: "length ([]::product list) + length (List.map_filter scraped (take i urls)) < count"
    and a3: "scraped (urls ! i) = None" by simp_all
  have "logsFailure (fst (urls ! i))
      (snd (snd (scrapeLoop count urls ([], length ([]::product list), []))))"
    using a1 a2 a3 by (rule scrapeLoop_failure_logged)
  then show "logsFailure (fst (urls ! i)) (snd (scrapeZaraCategory count (Returned urls)))"
    by (simp add: scrapeZaraCategory_loop[OF ne])
next
  from scrapeCuratedUrls_result[of table]
  show "fst (scrapeCuratedUrls table)
       = concat (map (\<lambda>(category, us). List.map_filter (curated category) us) table)"
    by auto
next
  from scrapeCuratedUrls_result[of table]
  show "ScrapingFailed \<notin> set (snd (scrapeCuratedUrls table))" by auto
next
  assume a: "(category, us) \<in> set table \<and> uf \<in> set us \<and> curated category uf = None"
  from scrapeCuratedUrls_result[of table] obtain lg' where
    s: "scrapeCuratedUrls table
          = (concat (map (\<lambda>(category, us). List.map_filter (curated category) us) table), lg')"
    and l: "\<forall>(category, us) \<in> set table. \<forall>uf \<in> set us.
           curated category uf = None \<longrightarrow> logsFailure (cleanUrl (fst uf)) lg'"
    by blast
  from a l have "logsFailure (cleanUrl (fst uf)) lg'" by blast
  with s show "logsFailure (cleanUrl (fst uf)) (snd (scrapeCuratedUrls table))" by simp
qed

text \<open>
  The theorem at a batch of two URLs, the first of which cannot be fetched: one product
  is returned by either loop, and the failed URL is on the console.
\<close>

theorem batch_skips_failures_witness:
  "\<exists>u1 f1 u2 f2 urls.
      u1 = ''https://www.zara.com/ca/en/linen-shirt-p00000001.html?v1=1''
    \<and> f1 = \<lparr>f_launch_ok = True, f_page = PageThrows, f_close_ok = True, f_random = []\<rparr>
    \<and> u2 = ''https://www.zara.com/ca/en/cotton-crew-tee-p00123456.html?v1=2''
    \<and> f2 = \<lparr>f_launch_ok = True,
             f_page = PageData \<lparr>rd_name = ''Cotton Crew Tee'', rd_price = 0,
                                rd_materials = ''100% cotton'', rd_images = [], rd_sizes = []\<rparr>,
             f_close_ok = True, f_random = []\<rparr>
    \<and> urls = [(u1, f1), (u2, f2)]
    \<and> 0 < length urls \<and> length (List.map_filter scraped (take 0 urls)) < 5
    \<and> scraped (urls ! 0) = None
    \<and> logsFailure u1 (snd (scrapeZaraCategory 5 (Returned urls)))
    \<and> length (fst (scrapeZaraCategory 5 (Returned urls))) = 1
    \<and> (''tops'', urls) \<in> set [(''tops'', urls)] \<and> (u1, f1) \<in> set urls
    \<and> curated ''tops'' (u1, f1) = None
    \<and> logsFailure (cleanUrl u1) (snd (scrapeCuratedUrls [(''tops'', urls)]))
    \<and> length (fst (scrapeCuratedUrls [(''tops'', urls)])) = 1"
proof -
  define u1 where "u1 = ''https://www.zara.com/ca/en/linen-shirt-p00000001.html?v1=1''"
  define f1 where "f1 = \<lparr>f_launch_ok = True, f_page = PageThrows, f_close_ok = True, f_random = []\<rparr>"
  define u2 where "u2 = ''https://www.zara.com/ca/en/cotton-crew-tee-p00123456.html?v1=2''"
  define d2 where "d2 = \<lparr>rd_name = ''Cotton Crew Tee'', rd_price = 0,
                                rd_materials = ''100% cotton'', rd_images = [], rd_sizes = []\<rparr>"
  define f2 where "f2 = \<lparr>f_launch_ok = True, f_page = PageData d2,
             f_close_ok = True, f_random = []\<rparr>"
  define urls where "urls = [(u1, f1), (u2, f2)]"
  have s1: "scraped (u1, f1) = None"
    by (simp add: scraped_def extractProductInfo_def f1_def)
  have c1: "curated ''tops'' (u1, f1) = None"
    by (simp add: curated_def extractProductInfo_def f1_def)
  have n2: "rd_name d2 \<noteq> []" "rd_name d2 \<noteq> ''Unknown Product''" by (simp_all add: d2_def)
  have g2: "f_launch_ok f2" "f_close_ok f2" "f_page f2 = PageData d2" by (simp_all add: f2_def)
  from scraped_good[OF g2 n2, of u2] obtain p where s2: "scraped (u2, f2) = Some p" by blast
  from curated_good[OF g2(3) n2, of "''tops''" u2] obtain q
    where c2: "curated ''tops'' (u2, f2) = Some q" by blast
  have mf: "List.map_filter scraped urls = [p]"
    by (simp add: urls_def List.map_filter_simps s1 s2)
  have mc: "List.map_filter (curated ''tops'') urls = [q]"
    by (simp add: urls_def List.map_filter_simps c1 c2)
  have h1: "0 < length urls" by (simp add: urls_def)
  have h2: "length (List.map_filter scraped (take 0 urls)) < 5"
    by (simp add: List.map_filter_simps)
  have h3: "scraped (urls ! 0) = None" by (simp add: urls_def s1)
  have h4: "(''tops'', urls) \<in> set [(''tops'', urls)]" by simp
  have h5: "(u1, f1) \<in> set urls" by (simp add: urls_def)
  note t = batch_skips_failures[where count = 5 and urls = urls and i = 0
      and table = "[(''tops'', urls)]" and category = "''tops''" and us = urls and uf = "(u1, f1)"]
  from t have r1: "fst (scrapeZaraCategory 5 (Returned urls)) = take 5 (List.map_filter scraped urls)"
    by (rule conjunct1)
  note r2 = t[THEN conjunct2, THEN conjunct1, THEN mp, OF conjI[OF h1 conjI[OF h2 h3]]]
  note r3 = t[THEN conjunct2, THEN conjunct2, THEN conjunct1]
  note r5 = t[THEN conjunct2, THEN conjunct2, THEN conjunct2, THEN conjunct2, THEN mp,
      OF conjI[OF h4 conjI[OF h5 c1]]]
  have k1: "logsFailure u1 (snd (scrapeZaraCategory 5 (Returned urls)))"
    using r2 by (simp add: urls_def)
  have k2: "length (fst (scrapeZaraCategory 5 (Returned urls))) = 1"
    by (simp add: r1 mf)
  have k3: "logsFailure (cleanUrl u1) (snd (scrapeCuratedUrls [(''tops'', urls)]))"
    using r5 by simp
  have k4: "length (fst (scrapeCuratedUrls [(''tops'', urls)])) = 1"
    by (simp add: r3 mc)
  show ?thesis
    apply (rule exI[of _ u1], rule exI[of _ f1], rule exI[of _ u2], rule exI[of _ f2],
        rule exI[of _ urls])
    using h1 h2 h3 k1 k2 h4 h5 c1 k3 k4
    by (simp add: u1_def f1_def u2_def f2_def d2_def urls_def[symmetric, unfolded u1_def f1_def u2_def f2_def d2_def])
qed

end
